theory Spec2Isabelle
  imports Complex_Main
begin

section \<open>Values, errors and external functions\<close>

text \<open>
  The playground is a Python module. Its dictionaries hold values of mixed type
  (floats, ints, booleans, strings, tuples, \<open>None\<close>, references to library functions),
  so parameter values are a datatype of the kinds of Python values that occur in the
  catalog and in the keyword arguments of the handlers. A float is represented by the real
  number its literal denotes; the functions modelled here copy such values and never
  compute with them. Identifiers and dictionary keys are \<open>string\<close>s; display text
  (names, icons, descriptions), which contains characters outside ASCII, is the list of
  its Unicode code points.
\<close>

datatype pyval =
    VNone
  | VBool bool
  | VInt int
  | VFloat real
  | VStr string
  | VTuple "pyval list"
  | VRef string

text \<open>The exceptions the modelled code can raise by itself, and \<open>External\<close> for an
  exception raised inside an imported library (torch, numpy, heavyball, plotly).\<close>

datatype error = KeyError | IndexError | TypeError | RuntimeError | External string

text \<open>A chainable transform of the external library: \<open>C name\<close> is \<open>heavyball.chainable.name\<close>,
  \<open>Partial f kws\<close> is \<open>functools.partial(f, **kws)\<close>.\<close>

datatype chain_fn = C string | Partial chain_fn "(string \<times> pyval) list"

type_synonym display_text = "nat list"

definition utext :: "string \<Rightarrow> display_text" where
  "utext s = map of_char s"

section \<open>The component catalog\<close>

text \<open>
  A catalog component is the dictionary with the keys \<open>id\<close>, \<open>name\<close>, \<open>icon\<close>,
  \<open>description\<close>, \<open>func\<close> and \<open>params\<close>; a category is the dictionary with the keys
  \<open>name\<close>, \<open>color\<close> and \<open>components\<close>. Both are records, with the field names prefixed
  (\<open>id\<close> and \<open>name\<close> would clash). \<open>params\<close> is a dictionary literal, kept as an
  association list in the order written.
\<close>

record component =
  comp_id :: string
  comp_name :: display_text
  comp_icon :: display_text
  comp_description :: display_text
  comp_func :: "chain_fn option"
  comp_params :: "(string \<times> pyval) list"

record category =
  cat_name :: display_text
  cat_color :: string
  cat_components :: "component list"

definition COLORS :: "(string \<times> string) list" where
  "COLORS =
    [(''bg'', ''#ffffff''),
     (''surface'', ''#f7f7f7''),
     (''primary'', ''#ff6f00''),
     (''secondary'', ''#0d47a1''),
     (''positive'', ''#4caf50''),
     (''negative'', ''#f44336''),
     (''text'', ''#212121''),
     (''text_light'', ''#757575''),
     (''border'', ''#e0e0e0''),
     (''gradient'', ''#9c27b0''),
     (''momentum'', ''#2196f3''),
     (''scaling'', ''#ff5722''),
     (''regularization'', ''#009688''),
     (''normalization'', ''#795548''),
     (''update'', ''#4caf50'')]"

text \<open>\<open>COLORS[k]\<close>, evaluated while the module is loaded.\<close>

definition COLORS_at :: "string \<Rightarrow> string" where
  "COLORS_at k = the (map_of COLORS k)"

definition gradient_block :: category where
  "gradient_block =
    \<lparr>cat_name = [0x1F3AF] @ utext '' Gradient Input'',
     cat_color = COLORS_at ''gradient'',
     cat_components =
      [\<lparr>comp_id = ''gradient_input'',
        comp_name = utext ''Raw Gradient'',
        comp_icon = [0x2207],
        comp_description = utext ''Start of the pipeline - raw gradients from backprop'',
        comp_func = None,
        comp_params =
         []\<rparr>]\<rparr>"

definition momentum_block :: category where
  "momentum_block =
    \<lparr>cat_name = [0x26A1] @ utext '' Momentum'',
     cat_color = COLORS_at ''momentum'',
     cat_components =
      [\<lparr>comp_id = ''heavyball'',
        comp_name = utext ''Heavy Ball'',
        comp_icon = [0x1F3D0],
        comp_description = utext ''Classic momentum: v = '' @ [0x3B2] @ utext ''v - g'',
        comp_func = Some (C ''heavyball_momentum''),
        comp_params =
         [(''beta'', VFloat 0.9)]\<rparr>,
       \<lparr>comp_id = ''nesterov'',
        comp_name = utext ''Nesterov'',
        comp_icon = [0x1F680],
        comp_description = utext ''Look-ahead momentum'',
        comp_func = Some (C ''nesterov_momentum''),
        comp_params =
         [(''beta'', VFloat 0.9)]\<rparr>,
       \<lparr>comp_id = ''nesterov_ema'',
        comp_name = utext ''Nesterov EMA'',
        comp_icon = [0x1F4C8],
        comp_description = utext ''Exponential moving average variant'',
        comp_func = Some (C ''nesterov_ema''),
        comp_params =
         [(''beta'', VFloat 0.9)]\<rparr>,
       \<lparr>comp_id = ''basic_ema'',
        comp_name = utext ''Basic EMA'',
        comp_icon = [0x1F4C9],
        comp_description = utext ''Simple exponential moving average'',
        comp_func = Some (C ''exp_avg''),
        comp_params =
         [(''betas'', VTuple [VFloat 0.9, VFloat 0.999])]\<rparr>]\<rparr>"

definition scaling_block :: category where
  "scaling_block =
    \<lparr>cat_name = [0x1F4CA] @ utext '' Adaptive Scaling'',
     cat_color = COLORS_at ''scaling'',
     cat_components =
      [\<lparr>comp_id = ''adam_scale'',
        comp_name = utext ''Adam Scaling'',
        comp_icon = [0x1F451],
        comp_description = utext ''Adaptive per-parameter learning rates'',
        comp_func = Some (C ''scale_by_adam''),
        comp_params =
         [(''betas'', VTuple [VFloat 0.9, VFloat 0.999]),
          (''eps'', VFloat 0.00000001)]\<rparr>,
       \<lparr>comp_id = ''rmsprop_scale'',
        comp_name = utext ''RMSprop Scaling'',
        comp_icon = [0x1F4C9],
        comp_description = utext ''Root mean square normalization'',
        comp_func = Some (C ''scale_by_exp_avg_sq''),
        comp_params =
         [(''beta2'', VFloat 0.999),
          (''eps'', VFloat 0.00000001)]\<rparr>,
       \<lparr>comp_id = ''adagrad_scale'',
        comp_name = utext ''AdaGrad Scaling'',
        comp_icon = [0x1F4D0],
        comp_description = utext ''Accumulate all past gradients'',
        comp_func = Some (C ''scale_by_exp_avg_sq''),
        comp_params =
         [(''beta2'', VFloat 1.0),
          (''eps'', VFloat 0.00000001)]\<rparr>]\<rparr>"

definition regularization_block :: category where
  "regularization_block =
    \<lparr>cat_name = [0x2696, 0xFE0F] @ utext '' Regularization'',
     cat_color = COLORS_at ''regularization'',
     cat_components =
      [\<lparr>comp_id = ''weight_decay'',
        comp_name = utext ''Weight Decay'',
        comp_icon = [0x1FAB6],
        comp_description = utext ''L2 regularization (AdamW style)'',
        comp_func = Some (C ''weight_decay_to_ema''),
        comp_params =
         [(''weight_decay_to_ema'', VFloat 0.01),
          (''ema_beta'', VFloat 0.999)]\<rparr>,
       \<lparr>comp_id = ''weight_decay_init'',
        comp_name = utext ''Decay to Init'',
        comp_icon = [0x1F3AF],
        comp_description = utext ''Pull weights toward initialization'',
        comp_func = Some (C ''weight_decay_to_init''),
        comp_params =
         [(''weight_decay_to_init'', VFloat 0.01)]\<rparr>,
       \<lparr>comp_id = ''l1_weight_decay'',
        comp_name = utext ''L1 Weight Decay'',
        comp_icon = [0x26A1],
        comp_description = utext ''L1 regularization to EMA'',
        comp_func = Some (C ''l1_weight_decay_to_ema''),
        comp_params =
         [(''weight_decay_to_ema'', VFloat 0.01),
          (''ema_beta'', VFloat 0.999)]\<rparr>]\<rparr>"

definition normalization_block :: category where
  "normalization_block =
    \<lparr>cat_name = [0x1F527] @ utext '' Gradient Processing'',
     cat_color = COLORS_at ''normalization'',
     cat_components =
      [\<lparr>comp_id = ''grad_clip'',
        comp_name = utext ''Gradient Clipping'',
        comp_icon = [0x2702, 0xFE0F],
        comp_description = utext ''Clip gradient norm'',
        comp_func = Some (Partial (C ''global_clip'') [(''clip_fn'', VRef ''heavyball.utils.l2_clip_'')]),
        comp_params =
         [(''max_norm'', VFloat 1.0)]\<rparr>,
       \<lparr>comp_id = ''sign'',
        comp_name = utext ''Sign SGD'',
        comp_icon = [0xB1],
        comp_description = utext ''Use only gradient signs'',
        comp_func = Some (C ''sign''),
        comp_params =
         [(''graft'', VBool True)]\<rparr>,
       \<lparr>comp_id = ''orthogonalize'',
        comp_name = utext ''Orthogonalize'',
        comp_icon = [0x22A5],
        comp_description = utext ''Orthogonalize gradient to parameter'',
        comp_func = Some (C ''orthogonalize_grad_to_param''),
        comp_params =
         [(''eps'', VFloat 0.00000001)]\<rparr>,
       \<lparr>comp_id = ''orthogonalize_update'',
        comp_name = utext ''Orthogonalize Update'',
        comp_icon = [0x2297],
        comp_description = utext ''Orthogonalize the update itself'',
        comp_func = Some (C ''orthogonalize_update''),
        comp_params =
         []\<rparr>]\<rparr>"

definition advanced_scaling_block :: category where
  "advanced_scaling_block =
    \<lparr>cat_name = [0x1F680] @ utext '' Advanced Optimizers'',
     cat_color = COLORS_at ''scaling'',
     cat_components =
      [\<lparr>comp_id = ''laprop'',
        comp_name = utext ''Laprop'',
        comp_icon = [0x1F30A],
        comp_description = utext ''Layerwise adaptive propagation'',
        comp_func = Some (C ''scale_by_laprop''),
        comp_params =
         [(''betas'', VTuple [VFloat 0.9, VFloat 0.999]),
          (''eps'', VFloat 0.00000001)]\<rparr>,
       \<lparr>comp_id = ''adopt'',
        comp_name = utext ''ADOPT'',
        comp_icon = [0x1F3AF],
        comp_description = utext ''Adaptive gradient methods'',
        comp_func = Some (C ''scale_by_adopt''),
        comp_params =
         [(''betas'', VTuple [VFloat 0.9, VFloat 0.9999]),
          (''eps'', VFloat 0.000000000001)]\<rparr>]\<rparr>"

definition preconditioning_block :: category where
  "preconditioning_block =
    \<lparr>cat_name = [0x1F52E] @ utext '' Preconditioning'',
     cat_color = COLORS_at ''gradient'',
     cat_components =
      [\<lparr>comp_id = ''soap'',
        comp_name = utext ''SOAP'',
        comp_icon = [0x1F9FC],
        comp_description = utext ''Shampoo-based preconditioning'',
        comp_func = Some (Partial (C ''scale_by_soap'') [(''inner'', VStr ''adam'')]),
        comp_params =
         [(''shampoo_beta'', VFloat 0.99),
          (''max_precond_dim'', VInt 10000),
          (''precondition_1d'', VBool False),
          (''is_preconditioning'', VBool True),
          (''betas'', VTuple [VFloat 0.9, VFloat 0.999]),
          (''eps'', VFloat 0.00000001)]\<rparr>,
       \<lparr>comp_id = ''psgd'',
        comp_name = utext ''PSGD'',
        comp_icon = [0x1F3B2],
        comp_description = utext ''Preconditioned SGD'',
        comp_func = Some (Partial (C ''scale_by_psgd'') [(''cached'', VBool False)]),
        comp_params =
         [(''precond_lr'', VFloat 0.1),
          (''max_size_triangular'', VInt 1024),
          (''precondition_frequency'', VInt 10),
          (''adaptive'', VBool False),
          (''store_triu_as_line'', VBool True),
          (''q_dtype'', VStr ''float32''),
          (''inverse_free'', VBool False),
          (''precond_init_scale'', VFloat 1.0),
          (''precond_init_scale_scale'', VFloat 0.0),
          (''precond_init_scale_power'', VFloat 1.0),
          (''min_ndim_triangular'', VInt 2),
          (''memory_save_mode'', VNone),
          (''dampening'', VFloat 1.0),
          (''is_preconditioning'', VBool True),
          (''betas'', VTuple [VFloat 0.9, VFloat 0.999]),
          (''eps'', VFloat 0.00000001),
          (''ortho_method'', VStr ''qr''),
          (''lower_bound_beta'', VFloat 0.999),
          (''precond_update_power_iterations'', VInt 1)]\<rparr>,
       \<lparr>comp_id = ''psgd_lra'',
        comp_name = utext ''PSGD LRA'',
        comp_icon = [0x1F4D0],
        comp_description = utext ''Low-rank approximation PSGD'',
        comp_func = Some (C ''scale_by_psgd_lra''),
        comp_params =
         [(''precond_lr'', VFloat 0.1),
          (''rank'', VInt 4),
          (''param_count'', VInt 10000),
          (''precondition_frequency'', VInt 10),
          (''precond_init_scale'', VFloat 1.0),
          (''precond_init_scale_scale'', VFloat 0.0),
          (''precond_init_scale_power'', VFloat 1.0),
          (''q_dtype'', VStr ''float32''),
          (''is_preconditioning'', VBool True),
          (''eps'', VFloat 0.00000001),
          (''betas'', VTuple [VFloat 0.9, VFloat 0.999])]\<rparr>,
       \<lparr>comp_id = ''delayed_psgd'',
        comp_name = utext ''Delayed PSGD'',
        comp_icon = [0x23F1, 0xFE0F],
        comp_description = utext ''PSGD with delayed preconditioner updates'',
        comp_func = Some (Partial (C ''scale_by_delayed_psgd'') [(''cached'', VBool False)]),
        comp_params =
         [(''precond_lr'', VFloat 0.1),
          (''max_size_triangular'', VInt 1024),
          (''precondition_frequency'', VInt 10),
          (''adaptive'', VBool False),
          (''store_triu_as_line'', VBool True),
          (''q_dtype'', VStr ''float32''),
          (''inverse_free'', VBool False),
          (''precond_init_scale'', VFloat 1.0),
          (''precond_init_scale_scale'', VFloat 0.0),
          (''precond_init_scale_power'', VFloat 1.0),
          (''min_ndim_triangular'', VInt 2),
          (''memory_save_mode'', VNone),
          (''dampening'', VFloat 1.0),
          (''is_preconditioning'', VBool True),
          (''betas'', VTuple [VFloat 0.9, VFloat 0.999]),
          (''eps'', VFloat 0.00000001),
          (''ortho_method'', VStr ''qr''),
          (''lower_bound_beta'', VFloat 0.999),
          (''precond_update_power_iterations'', VInt 1)]\<rparr>,
       \<lparr>comp_id = ''delayed_psgd_lra'',
        comp_name = utext ''Delayed PSGD LRA'',
        comp_icon = [0x23F0],
        comp_description = utext ''Delayed low-rank PSGD'',
        comp_func = Some (C ''scale_by_delayed_psgd_lra''),
        comp_params =
         [(''precond_lr'', VFloat 0.1),
          (''rank'', VInt 4),
          (''param_count'', VInt 10000),
          (''precondition_frequency'', VInt 10),
          (''precond_init_scale'', VFloat 1.0),
          (''precond_init_scale_scale'', VFloat 0.0),
          (''precond_init_scale_power'', VFloat 1.0),
          (''q_dtype'', VStr ''float32''),
          (''is_preconditioning'', VBool True),
          (''eps'', VFloat 0.00000001),
          (''betas'', VTuple [VFloat 0.9, VFloat 0.999])]\<rparr>]\<rparr>"

definition adaptive_lr_block :: category where
  "adaptive_lr_block =
    \<lparr>cat_name = [0x1F39B, 0xFE0F] @ utext '' Adaptive Learning Rate'',
     cat_color = COLORS_at ''regularization'',
     cat_components =
      [\<lparr>comp_id = ''d_adapt'',
        comp_name = utext ''D-Adaptation'',
        comp_icon = [0x1F4C8],
        comp_description = utext ''Automatic learning rate adaptation'',
        comp_func = Some (C ''scale_by_d_adaptation''),
        comp_params =
         [(''initial_d'', VFloat 1.0)]\<rparr>,
       \<lparr>comp_id = ''lr_adapt'',
        comp_name = utext ''LR Adaptation'',
        comp_icon = [0x1F504],
        comp_description = utext ''Learning rate adaptation'',
        comp_func = Some (C ''scale_by_lr_adaptation''),
        comp_params =
         [(''initial_d'', VFloat 1.0),
          (''lr_lr'', VFloat 0.1)]\<rparr>,
       \<lparr>comp_id = ''pointwise_lr_adapt'',
        comp_name = utext ''Pointwise LR'',
        comp_icon = [0x1F39A, 0xFE0F],
        comp_description = utext ''Per-parameter learning rate'',
        comp_func = Some (C ''scale_by_pointwise_lr_adaptation''),
        comp_params =
         [(''initial_d'', VFloat 1.0),
          (''lr_lr'', VFloat 0.1)]\<rparr>]\<rparr>"

definition special_block :: category where
  "special_block =
    \<lparr>cat_name = [0x2728] @ utext '' Special Methods'',
     cat_color = COLORS_at ''update'',
     cat_components =
      [\<lparr>comp_id = ''schedule_free'',
        comp_name = utext ''Schedule-Free'',
        comp_icon = [0x1F5D3, 0xFE0F],
        comp_description = utext ''No learning rate schedule needed'',
        comp_func = Some (C ''update_by_schedule_free''),
        comp_params =
         [(''r'', VFloat 0.0),
          (''weight_lr_power'', VFloat 2.0)]\<rparr>,
       \<lparr>comp_id = ''msam'',
        comp_name = utext ''MSAM'',
        comp_icon = [0x1F3D4, 0xFE0F],
        comp_description = utext ''Momentum SAM optimizer'',
        comp_func = Some (C ''update_by_msam''),
        comp_params =
         [(''sam_step_size'', VFloat 0.05)]\<rparr>,
       \<lparr>comp_id = ''mup'',
        comp_name = [0x3BC] @ utext ''P Approx'',
        comp_icon = [0x1F4CF],
        comp_description = utext ''Maximal update parametrization'',
        comp_func = Some (C ''mup_approx''),
        comp_params =
         []\<rparr>,
       \<lparr>comp_id = ''palm_beta2'',
        comp_name = utext ''PALM '' @ [0x3B2, 0x2082],
        comp_icon = [0x1F334],
        comp_description = utext ''Dynamic '' @ [0x3B2, 0x2082] @ utext '' scheduling for PALM'',
        comp_func = Some (C ''palm_beta2''),
        comp_params =
         [(''beta2_scale'', VFloat 0.8)]\<rparr>,
       \<lparr>comp_id = ''identity'',
        comp_name = utext ''Identity'',
        comp_icon = [0x1F504],
        comp_description = utext ''Pass-through (no operation)'',
        comp_func = Some (C ''identity''),
        comp_params =
         []\<rparr>]\<rparr>"

definition OPTIMIZER_BLOCKS :: "(string \<times> category) list" where
  "OPTIMIZER_BLOCKS =
    [(''gradient'', gradient_block),
     (''momentum'', momentum_block),
     (''scaling'', scaling_block),
     (''regularization'', regularization_block),
     (''normalization'', normalization_block),
     (''advanced_scaling'', advanced_scaling_block),
     (''preconditioning'', preconditioning_block),
     (''adaptive_lr'', adaptive_lr_block),
     (''special'', special_block)]"

definition RECIPES :: "(display_text \<times> string list) list" where
  "RECIPES =
    [(utext ''SGD'', [''gradient_input'']),
     (utext ''SGD + Momentum'', [''gradient_input'', ''heavyball'']),
     (utext ''Adam'', [''gradient_input'', ''adam_scale'']),
     (utext ''AdamW'', [''gradient_input'', ''adam_scale'', ''weight_decay'']),
     (utext ''RMSprop'', [''gradient_input'', ''rmsprop_scale'']),
     (utext ''Nesterov SGD'', [''gradient_input'', ''nesterov'']),
     (utext ''SOAP'', [''gradient_input'', ''soap'']),
     (utext ''Laprop'', [''gradient_input'', ''laprop'']),
     (utext ''ADOPT'', [''gradient_input'', ''adopt'']),
     (utext ''Sign SGD'', [''gradient_input'', ''sign'']),
     (utext ''AdamW + Clipping'', [''gradient_input'', ''grad_clip'', ''adam_scale'', ''weight_decay'']),
     (utext ''D-Adapted Adam'', [''gradient_input'', ''adam_scale'', ''d_adapt'']),
     (utext ''PSGD'', [''gradient_input'', ''psgd'']),
     (utext ''Schedule-Free AdamW'', [''gradient_input'', ''adam_scale'', ''weight_decay'', ''schedule_free'']),
     (utext ''EMA SGD'', [''gradient_input'', ''basic_ema'']),
     (utext ''Orthogonal Adam'', [''gradient_input'', ''orthogonalize_update'', ''adam_scale'']),
     (utext ''PALM'', [''gradient_input'', ''palm_beta2'', ''adam_scale'']),
     (utext ''Delayed PSGD'', [''gradient_input'', ''delayed_psgd'']),
     ([0x3BC] @ utext ''P Adam'', [''gradient_input'', ''mup'', ''adam_scale''])]"

text \<open>All components, in the order \<open>get_component_info\<close> visits them.\<close>

definition all_components :: "component list" where
  "all_components = concat (map (cat_components \<circ> snd) OPTIMIZER_BLOCKS)"

subsection \<open>get_component_info\<close>

text \<open>The inner loop over \<open>category["components"]\<close>, returning at the first match.\<close>

fun find_component :: "component list \<Rightarrow> string \<Rightarrow> component option" where
  "find_component [] cid = None"
| "find_component (c # comps) cid =
     (if comp_id c = cid then Some c else find_component comps cid)"

text \<open>The outer loop over \<open>OPTIMIZER_BLOCKS.values()\<close>.\<close>

fun find_in_categories :: "category list \<Rightarrow> string \<Rightarrow> (component \<times> string) option" where
  "find_in_categories [] cid = None"
| "find_in_categories (category # rest) cid =
     (case find_component (cat_components category) cid of
        Some c \<Rightarrow> Some (c, cat_color category)
      | None \<Rightarrow> find_in_categories rest cid)"

definition get_component_info :: "string \<Rightarrow> component option \<times> string" where
  "get_component_info cid =
     (case find_in_categories (map snd OPTIMIZER_BLOCKS) cid of
        Some (c, color) \<Rightarrow> (Some c, color)
      | None \<Rightarrow> (None, ''#757575''))"

subsection \<open>Recipes\<close>

text \<open>\<open>load_recipe\<close>: a copy of the preset, or the bare input block for an unknown name.\<close>

definition load_recipe :: "display_text \<Rightarrow> string list" where
  "load_recipe recipe_name =
     (case map_of RECIPES recipe_name of
        Some recipe \<Rightarrow> recipe
      | None \<Rightarrow> [''gradient_input''])"

section \<open>build_optimizer_from_pipeline\<close>

text \<open>
  \<open>kwargs\<close> and \<open>opt_params\<close> are dictionaries from keys to values. The function ends in a
  call of the external constructor \<open>C.BaseOpt(params, opt_params, fns=...)\<close>; the model
  returns the arguments of that call, or the exception raised before it.
\<close>

type_synonym pydict = "string \<rightharpoonup> pyval"

record 'p baseopt_call =
  call_params :: 'p
  call_defaults :: pydict
  call_fns :: "chain_fn list"

definition base_defaults :: pydict where
  "base_defaults =
     [''lr'' \<mapsto> VFloat 0.001,
      ''step'' \<mapsto> VInt 1,
      ''caution'' \<mapsto> VBool False,
      ''weight_decay'' \<mapsto> VFloat 0.0]"

text \<open>\<open>v[1]\<close>: tuples and strings can be indexed, the other values raise \<open>TypeError\<close>.\<close>

fun subscript1 :: "pyval \<Rightarrow> error + pyval" where
  "subscript1 (VTuple vs) = (if 1 < length vs then Inr (vs ! 1) else Inl IndexError)"
| "subscript1 (VStr s) = (if 1 < length s then Inr (VStr [s ! 1]) else Inl IndexError)"
| "subscript1 v = Inl TypeError"

text \<open>\<open>params_to_add.pop(key)\<close> on the copied dictionary literal.\<close>

definition dict_pop :: "string \<Rightarrow> (string \<times> pyval) list \<Rightarrow> (string \<times> pyval) list" where
  "dict_pop key d = filter (\<lambda>(k, v). k \<noteq> key) d"

text \<open>The special case for a component with a \<open>beta\<close> and no \<open>betas\<close>: the single beta
  becomes the first element of \<open>opt_params["betas"]\<close>.\<close>

definition convert_beta ::
  "(string \<times> pyval) list \<Rightarrow> pydict \<Rightarrow> error + ((string \<times> pyval) list \<times> pydict)" where
  "convert_beta params_to_add opt_params =
     (case (map_of params_to_add ''beta'', map_of params_to_add ''betas'') of
        (Some beta, None) \<Rightarrow>
          (case opt_params ''betas'' of
             Some betas \<Rightarrow>
               (case subscript1 betas of
                  Inl e \<Rightarrow> Inl e
                | Inr beta2 \<Rightarrow>
                    Inr (dict_pop ''beta'' params_to_add,
                         opt_params(''betas'' \<mapsto> VTuple [beta, beta2])))
           | None \<Rightarrow>
               Inr (dict_pop ''beta'' params_to_add,
                    opt_params(''betas'' \<mapsto> VTuple [beta, VFloat 0.999])))
      | _ \<Rightarrow> Inr (params_to_add, opt_params))"

text \<open>The loop over \<open>params_to_add.items()\<close>: a default is stored only for a key that is
  not in \<open>kwargs\<close>.\<close>

fun add_defaults :: "pydict \<Rightarrow> (string \<times> pyval) list \<Rightarrow> pydict \<Rightarrow> pydict" where
  "add_defaults kwargs [] opt_params = opt_params"
| "add_defaults kwargs ((key, val) # rest) opt_params =
     add_defaults kwargs rest
       (if kwargs key = None then opt_params(key \<mapsto> val) else opt_params)"

text \<open>One iteration of the loop over the pipeline, on the pair \<open>(fns, opt_params)\<close>.\<close>

definition pipeline_step ::
  "pydict \<Rightarrow> chain_fn list \<times> pydict \<Rightarrow> string \<Rightarrow> error + (chain_fn list \<times> pydict)" where
  "pipeline_step kwargs st cid =
     (case st of (fns, opt_params) \<Rightarrow>
        if cid = ''gradient_input'' then Inr (fns, opt_params)
        else
          (case get_component_info cid of
             (None, color) \<Rightarrow> Inr (fns, opt_params)
           | (Some comp_info, color) \<Rightarrow>
               (case comp_func comp_info of
                  None \<Rightarrow> Inr (fns, opt_params)
                | Some f \<Rightarrow>
                    (case convert_beta (comp_params comp_info) opt_params of
                       Inl e \<Rightarrow> Inl e
                     | Inr (params_to_add, opt_params') \<Rightarrow>
                         Inr (fns @ [f], add_defaults kwargs params_to_add opt_params')))))"

fun pipeline_loop ::
  "pydict \<Rightarrow> string list \<Rightarrow> chain_fn list \<times> pydict \<Rightarrow> error + (chain_fn list \<times> pydict)" where
  "pipeline_loop kwargs [] st = Inr st"
| "pipeline_loop kwargs (cid # rest) st =
     (case pipeline_step kwargs st cid of
        Inl e \<Rightarrow> Inl e
      | Inr st' \<Rightarrow> pipeline_loop kwargs rest st')"

definition build_optimizer_from_pipeline ::
  "string list \<Rightarrow> 'p \<Rightarrow> pydict \<Rightarrow> error + 'p baseopt_call" where
  "build_optimizer_from_pipeline pipeline params kwargs =
     (case pipeline_loop kwargs pipeline ([], base_defaults ++ kwargs) of
        Inl e \<Rightarrow> Inl e
      | Inr (fns, opt_params) \<Rightarrow>
          if fns = [] then
            Inr \<lparr>call_params = params, call_defaults = opt_params, call_fns = [C ''identity'']\<rparr>
          else
            Inr \<lparr>call_params = params, call_defaults = opt_params, call_fns = fns\<rparr>)"

text \<open>The adapter as the specification words it: the catalog functions of the pipeline's
  ids, in order, without the input block, unknown ids and entries without a function.\<close>

definition catalog_func :: "string \<Rightarrow> chain_fn option" where
  "catalog_func cid =
     (if cid = ''gradient_input'' then None
      else case fst (get_component_info cid) of
             None \<Rightarrow> None
           | Some c \<Rightarrow> comp_func c)"

definition pipeline_funcs :: "string list \<Rightarrow> chain_fn list" where
  "pipeline_funcs pipeline = List.map_filter catalog_func pipeline"

text \<open>The ids of the components whose parameters hold a \<open>beta\<close> and no \<open>betas\<close>.\<close>

definition has_single_beta :: "string \<Rightarrow> bool" where
  "has_single_beta cid =
     (cid \<noteq> ''gradient_input'' \<and>
      (case fst (get_component_info cid) of
         None \<Rightarrow> False
       | Some c \<Rightarrow> comp_func c \<noteq> None \<and> map_of (comp_params c) ''beta'' \<noteq> None
                   \<and> map_of (comp_params c) ''betas'' = None))"

section \<open>Convergence detection\<close>

text \<open>
  \<open>find_convergence(losses, threshold=1e-6)\<close>. The loop over \<open>range(10, len(losses))\<close>
  returns at the first index whose loss is within the threshold of the loss five steps
  earlier. The function is kept generic in the number type: it only subtracts, takes the
  absolute value and compares.
\<close>

fun convergence_loop :: "'a::{minus,abs,ord} list \<Rightarrow> 'a \<Rightarrow> nat list \<Rightarrow> nat option" where
  "convergence_loop losses threshold [] = None"
| "convergence_loop losses threshold (i # rest) =
     (if \<bar>losses ! i - losses ! (i - 5)\<bar> < threshold then Some i
      else convergence_loop losses threshold rest)"

definition find_convergence :: "'a::{minus,abs,ord} list \<Rightarrow> 'a \<Rightarrow> nat" where
  "find_convergence losses threshold =
     (if length losses < 10 then length losses
      else case convergence_loop losses threshold [10..<length losses] of
             Some i \<Rightarrow> i
           | None \<Rightarrow> length losses)"

text \<open>The test of the loop body, for an index the loop visits.\<close>

definition converged_at :: "'a::{minus,abs,ord} list \<Rightarrow> 'a \<Rightarrow> nat \<Rightarrow> bool" where
  "converged_at losses threshold i \<longleftrightarrow>
     10 \<le> i \<and> i < length losses \<and> \<bar>losses ! i - losses ! (i - 5)\<bar> < threshold"

text \<open>The default \<open>threshold=1e-6\<close>, as the real number the literal stands for.\<close>

definition default_threshold :: real where
  "default_threshold = 0.000001"

section \<open>Removing a pipeline block\<close>

text \<open>
  Python lists are mutable objects, and \<open>remove_block\<close> either returns its argument or a
  modified copy. The heap is the list of all list objects, a reference is an index into it.
\<close>

type_synonym heap = "string list list"

type_synonym ref = nat

text \<open>\<open>xs.copy()\<close> allocates a new list object.\<close>

definition list_copy :: "heap \<Rightarrow> ref \<Rightarrow> heap \<times> ref" where
  "list_copy h r = (h @ [h ! r], length h)"

text \<open>\<open>xs.pop(i)\<close> for \<open>i \<ge> 0\<close> mutates the object in place and raises \<open>IndexError\<close> out of range.\<close>

definition list_pop :: "heap \<Rightarrow> ref \<Rightarrow> nat \<Rightarrow> error + heap" where
  "list_pop h r i =
     (if i < length (h ! r) then Inr (h[r := take i (h ! r) @ drop (Suc i) (h ! r)])
      else Inl IndexError)"

definition remove_block :: "heap \<Rightarrow> ref \<Rightarrow> int \<Rightarrow> error + (heap \<times> ref)" where
  "remove_block h pipeline index =
     (if 0 \<le> index \<and> index < int (length (h ! pipeline)) then
        if (h ! pipeline) ! nat index \<noteq> ''gradient_input'' then
          (case list_copy h pipeline of (h1, new_pipeline) \<Rightarrow>
             (case list_pop h1 new_pipeline (nat index) of
                Inl e \<Rightarrow> Inl e
              | Inr h2 \<Rightarrow> Inr (h2, new_pipeline)))
        else Inr (h, pipeline)
      else Inr (h, pipeline))"

section \<open>Problems\<close>

text \<open>
  The problem classes. \<open>Function2D(func, bounds, init, optimal)\<close> keeps its four
  arguments; the three MLP classes differ in the data they draw; \<open>QuadraticBowl(dim)\<close> and
  \<open>StyblinskiTang(dim)\<close> keep their dimension. Tensors are lists of reals.
\<close>

datatype mlp_kind = AbsMLP | SineMLP | ExpMLP

datatype problem =
    Function2D "real list \<Rightarrow> real" "(real \<times> real) list" "real list" "real list option"
  | MLPProblem mlp_kind nat nat
  | QuadraticBowl nat
  | StyblinskiTang nat

text \<open>The shapes of \<open>self.model.parameters()\<close> for
  \<open>Sequential(Linear(1, h), ReLU(), Linear(h, h), ReLU(), Linear(h, 1))\<close>, in order:
  weight \<open>(out, in)\<close> and bias \<open>(out)\<close> of each linear layer.\<close>

definition mlp_shapes :: "nat \<Rightarrow> nat list list" where
  "mlp_shapes hidden_size =
     [[hidden_size, 1], [hidden_size],
      [hidden_size, hidden_size], [hidden_size],
      [1, hidden_size], [1]]"

definition numel :: "nat list \<Rightarrow> nat" where
  "numel shape = prod_list shape"

fun dim :: "problem \<Rightarrow> nat" where
  "dim (Function2D func bounds init optimal) = 2"
| "dim (MLPProblem kind hidden_size n_samples) = sum_list (map numel (mlp_shapes hidden_size))"
| "dim (QuadraticBowl d) = d"
| "dim (StyblinskiTang d) = d"

definition PROBLEMS :: "(string \<times> problem) list" where
  "PROBLEMS =
    [(''Simple Bowl (2D)'',
        Function2D (\<lambda>x. (x ! 0 - 1) ^ 2 + (x ! 1 - 2) ^ 2)
          [(-3, 5), (-2, 6)] [-1.0, 0.0] (Some [1.0, 2.0])),
     (''Ravine (2D)'',
        Function2D (\<lambda>x. (x ! 0 - 1) ^ 2 + (x ! 1 - 2) ^ 100)
          [(-3, 5), (-2, 6)] [-1.0, 1.0] (Some [1.0, 2.0])),
     (''Rosenbrock (2D)'',
        Function2D (\<lambda>x. (1 - x ! 0) ^ 2 + 100 * (x ! 1 - (x ! 0) ^ 2) ^ 2)
          [(-2, 2), (-1, 3)] [-1.0, 1.0] (Some [1.0, 1.0])),
     (''Himmelblau (2D)'',
        Function2D (\<lambda>x. ((x ! 0) ^ 2 + x ! 1 - 11) ^ 2 + (x ! 0 + (x ! 1) ^ 2 - 7) ^ 2)
          [(-5, 5), (-5, 5)] [0.0, 0.0] (Some [3.0, 2.0])),
     (''Beale (2D)'',
        Function2D (\<lambda>x. (1.5 - x ! 0 + x ! 0 * x ! 1) ^ 2
                       + (2.25 - x ! 0 + x ! 0 * (x ! 1) ^ 2) ^ 2
                       + (2.625 - x ! 0 + x ! 0 * (x ! 1) ^ 3) ^ 2)
          [(-4.5, 4.5), (-4.5, 4.5)] [1.0, 1.0] (Some [3.0, 0.5])),
     (''MLP abs(x) (13D)'', MLPProblem AbsMLP 4 128),
     (''MLP sin(x) (13D)'', MLPProblem SineMLP 4 128),
     (''MLP exp(x) (13D)'', MLPProblem ExpMLP 4 128),
     (''Quadratic Bowl (10D)'', QuadraticBowl 10),
     (''Styblinski-Tang (4D)'', StyblinskiTang 4),
     (''Styblinski-Tang (8D)'', StyblinskiTang 8)]"

section \<open>The MLP loss\<close>

text \<open>
  An \<open>MLPProblem\<close> instance holds the hidden size of its model and the data drawn when it
  was built; \<open>x_data\<close> and \<open>y_data\<close> have shape \<open>(n_samples, 1)\<close>, a list of rows.
\<close>

record mlp_instance =
  hidden_size :: nat
  x_data :: "real list list"
  y_data :: "real list list"

text \<open>The loop \<open>for p in self.model.parameters()\<close>: the slice \<open>x[idx : idx + numel]\<close> is
  cut off at the end of \<open>x\<close>, and \<open>view(p.shape)\<close> raises when the slice is too short.\<close>

fun split_params :: "nat list list \<Rightarrow> real list \<Rightarrow> error + real list list" where
  "split_params [] x = Inr []"
| "split_params (shape # shapes) x =
     (if length (take (numel shape) x) \<noteq> numel shape then Inl RuntimeError
      else case split_params shapes (drop (numel shape) x) of
             Inl e \<Rightarrow> Inl e
           | Inr params \<Rightarrow> Inr (take (numel shape) x # params))"

text \<open>A flat slice viewed as a matrix of \<open>r\<close> rows and \<open>c\<close> columns, row by row.\<close>

fun as_matrix :: "nat \<Rightarrow> nat \<Rightarrow> real list \<Rightarrow> real list list" where
  "as_matrix 0 c xs = []"
| "as_matrix (Suc r) c xs = take c xs # as_matrix r c (drop c xs)"

definition dot :: "real list \<Rightarrow> real list \<Rightarrow> real" where
  "dot xs ys = sum_list (map2 (*) xs ys)"

text \<open>\<open>torch.nn.functional.linear(input, weight, bias)\<close>: \<open>input @ weight.T + bias\<close>.\<close>

definition linear :: "real list list \<Rightarrow> real list list \<Rightarrow> real list \<Rightarrow> real list list" where
  "linear input weight bias = map (\<lambda>row. map2 (\<lambda>w b. dot row w + b) weight bias) input"

definition relu :: "real list list \<Rightarrow> real list list" where
  "relu t = map (map (max 0)) t"

text \<open>\<open>nn.functional.mse_loss\<close>: the mean of the squared differences over all elements.\<close>

definition mse_loss :: "real list list \<Rightarrow> real list list \<Rightarrow> real" where
  "mse_loss pred target =
     (let sq = concat (map2 (map2 (\<lambda>p t. (p - t) ^ 2)) pred target)
      in sum_list sq / real (length sq))"

text \<open>\<open>MLPProblem.loss\<close>, statement by statement.\<close>

definition MLPProblem_loss :: "mlp_instance \<Rightarrow> real list \<Rightarrow> error + real" where
  "MLPProblem_loss self x =
     (case split_params (mlp_shapes (hidden_size self)) x of
        Inl e \<Rightarrow> Inl e
      | Inr params \<Rightarrow>
          (case params of
             [w1, b1, w2, b2, w3, b3] \<Rightarrow>
               (let n = hidden_size self;
                    h = linear (x_data self) (as_matrix n 1 w1) b1;
                    h = relu h;
                    pred = linear h (as_matrix n n w2) b2;
                    h = relu h;
                    pred = linear h (as_matrix 1 n w3) b3
                in Inr (mse_loss pred (y_data self)))
           | _ \<Rightarrow> Inl RuntimeError))"

text \<open>The loss of the declared model
  \<open>Linear \<rightarrow> ReLU \<rightarrow> Linear \<rightarrow> ReLU \<rightarrow> Linear\<close> with its parameters set from \<open>x\<close>: each
  layer is applied to the output of the layer before it.\<close>

definition declared_model_loss :: "mlp_instance \<Rightarrow> real list \<Rightarrow> error + real" where
  "declared_model_loss self x =
     (case split_params (mlp_shapes (hidden_size self)) x of
        Inl e \<Rightarrow> Inl e
      | Inr params \<Rightarrow>
          (case params of
             [w1, b1, w2, b2, w3, b3] \<Rightarrow>
               (let n = hidden_size self;
                    a1 = relu (linear (x_data self) (as_matrix n 1 w1) b1);
                    a2 = relu (linear a1 (as_matrix n n w2) b2);
                    pred = linear a2 (as_matrix 1 n w3) b3
                in Inr (mse_loss pred (y_data self)))
           | _ \<Rightarrow> Inl RuntimeError))"

section \<open>run_optimization and create_visualization\<close>

text \<open>
  What the imported libraries do is a parameter of the model:
  \<^item> \<open>pow10 v\<close> is \<open>10 ** v\<close>;
  \<^item> \<open>sample_init p\<close> is the array \<open>p.init()\<close> returns for a problem that draws it from a
    random generator;
  \<^item> \<open>float32\<close> is the rounding of \<open>torch.tensor(init, dtype=torch.float32)\<close>;
  \<^item> \<open>BaseOpt\<close> is the constructor of the chainable optimizer;
  \<^item> \<open>optimizer_step p opt x\<close> is one round of \<open>optimizer.step(closure)\<close>,
    \<open>optimizer.zero_grad()\<close> and \<open>loss.item()\<close>: the loss, the gradients the closure
    appended to \<open>gradients\<close>, the new value of \<open>x\<close> and the new optimizer;
  \<^item> the two plotting functions build the figure.
  Each of them may raise.
\<close>

record ('o, 'fig) library =
  pow10 :: "pyval \<Rightarrow> error + pyval"
  sample_init :: "problem \<Rightarrow> real list"
  float32 :: "real \<Rightarrow> real"
  BaseOpt :: "real list list baseopt_call \<Rightarrow> error + 'o"
  optimizer_step :: "problem \<Rightarrow> 'o \<Rightarrow> real list \<Rightarrow> error + (real \<times> real list list \<times> real list \<times> 'o)"
  create_2d_visualization ::
    "string \<Rightarrow> real list list \<Rightarrow> real list \<Rightarrow> real list list \<Rightarrow> string list \<Rightarrow> error + 'fig"
  create_highdim_visualization ::
    "string \<Rightarrow> real list list \<Rightarrow> real list \<Rightarrow> real list list \<Rightarrow> string list \<Rightarrow> error + 'fig"

text \<open>\<open>problem.init()\<close>: the stored list for a 2D function, drawn otherwise.\<close>

fun problem_init :: "('o, 'fig) library \<Rightarrow> problem \<Rightarrow> real list" where
  "problem_init lib (Function2D func bounds init optimal) = init"
| "problem_init lib p = sample_init lib p"

definition create_visualization ::
  "('o, 'fig) library \<Rightarrow> string \<Rightarrow> real list list \<Rightarrow> real list \<Rightarrow> real list list \<Rightarrow> string list
     \<Rightarrow> error + 'fig" where
  "create_visualization lib problem_name trajectory losses gradients pipeline =
     (case map_of PROBLEMS problem_name of
        None \<Rightarrow> Inl KeyError
      | Some problem \<Rightarrow>
          if dim problem = 2 then
            create_2d_visualization lib problem_name trajectory losses gradients pipeline
          else
            create_highdim_visualization lib problem_name trajectory losses gradients pipeline)"

text \<open>The returned dictionary with the keys \<open>trajectory\<close>, \<open>losses\<close>, \<open>final_loss\<close> and
  \<open>steps_to_converge\<close>.\<close>

record metrics =
  m_trajectory :: "real list list"
  m_losses :: "real list"
  m_final_loss :: real
  m_steps_to_converge :: nat

text \<open>The loop \<open>for i in range(steps)\<close> on the optimizer, \<open>x\<close> and the three lists.\<close>

fun training_loop ::
  "('o, 'fig) library \<Rightarrow> problem \<Rightarrow> nat \<Rightarrow> 'o \<times> real list
     \<Rightarrow> real list list \<times> real list \<times> real list list
     \<Rightarrow> error + (real list list \<times> real list \<times> real list list)" where
  "training_loop lib problem 0 st acc = Inr acc"
| "training_loop lib problem (Suc n) st acc =
     (case (st, acc) of ((optimizer, x), (trajectory, losses, gradients)) \<Rightarrow>
        (case optimizer_step lib problem optimizer x of
           Inl e \<Rightarrow> Inl e
         | Inr (loss, gs, x', optimizer') \<Rightarrow>
             training_loop lib problem n (optimizer', x')
               (trajectory @ [x], losses @ [loss], gradients @ gs)))"

text \<open>The optimizer and \<open>x\<close> after \<open>i\<close> rounds of \<open>optimizer_step\<close>: the state in which round
  \<open>i\<close> of the loop starts.\<close>

fun state_after ::
  "('o, 'fig) library \<Rightarrow> problem \<Rightarrow> nat \<Rightarrow> 'o \<times> real list \<Rightarrow> error + ('o \<times> real list)" where
  "state_after lib problem 0 st = Inr st"
| "state_after lib problem (Suc i) st =
     (case st of (optimizer, x) \<Rightarrow>
        (case optimizer_step lib problem optimizer x of
           Inl e \<Rightarrow> Inl e
         | Inr (loss, gs, x', optimizer') \<Rightarrow> state_after lib problem i (optimizer', x')))"

definition run_optimization ::
  "('o, 'fig) library \<Rightarrow> string \<Rightarrow> string list \<Rightarrow> int \<Rightarrow> pydict \<Rightarrow> error + ('fig \<times> metrics)" where
  "run_optimization lib problem_name pipeline steps kwargs =
     (case map_of PROBLEMS problem_name of
        None \<Rightarrow> Inl KeyError
      | Some problem \<Rightarrow>
          (case pow10 lib (case kwargs ''lr'' of None \<Rightarrow> VInt (- 2) | Some v \<Rightarrow> v) of
             Inl e \<Rightarrow> Inl e
           | Inr lr \<Rightarrow>
               (let kwargs = kwargs(''lr'' \<mapsto> lr);
                    init = problem_init lib problem;
                    x = map (float32 lib) init
                in case build_optimizer_from_pipeline pipeline [x] kwargs of
                     Inl e \<Rightarrow> Inl e
                   | Inr call \<Rightarrow>
                       (case BaseOpt lib call of
                          Inl e \<Rightarrow> Inl e
                        | Inr optimizer \<Rightarrow>
                            (case training_loop lib problem (nat steps) (optimizer, x) ([], [], []) of
                               Inl e \<Rightarrow> Inl e
                             | Inr (trajectory, losses, gradients) \<Rightarrow>
                                 (case create_visualization lib problem_name trajectory losses
                                         gradients pipeline of
                                    Inl e \<Rightarrow> Inl e
                                  | Inr fig \<Rightarrow>
                                      if losses = [] then Inl IndexError
                                      else Inr (fig,
                                             \<lparr>m_trajectory = trajectory,
                                              m_losses = losses,
                                              m_final_loss = last losses,
                                              m_steps_to_converge =
                                                find_convergence losses default_threshold\<rparr>)))))))"

section \<open>Concrete inputs\<close>

text \<open>
  A small library on which the model can be run: \<open>10 ** v\<close> on numbers, initial
  parameters of ones, exact conversion to the tensor, an optimizer without state whose
  step reports the sum of squares as the loss, records the gradient \<open>2x\<close> and halves
  \<open>x\<close>, and plotting functions that return the name of the plot.
\<close>

definition toy_library :: "(unit, string) library" where
  "toy_library =
     \<lparr>pow10 = (\<lambda>v. case v of
                  VInt n \<Rightarrow> Inr (if 0 \<le> n then VInt (10 ^ nat n) else VFloat (1 / 10 ^ nat (- n)))
                | VFloat r \<Rightarrow> Inr (VFloat (10 powr r))
                | _ \<Rightarrow> Inl TypeError),
      sample_init = (\<lambda>p. replicate (dim p) 1),
      float32 = (\<lambda>r. r),
      BaseOpt = (\<lambda>call. Inr ()),
      optimizer_step = (\<lambda>p opt x.
         Inr (sum_list (map (\<lambda>v. v * v) x), [map (\<lambda>v. 2 * v) x], map (\<lambda>v. v / 2) x, opt)),
      create_2d_visualization = (\<lambda>name t l g pl. Inr ''landscape''),
      create_highdim_visualization = (\<lambda>name t l g pl. Inr ''pca'')\<rparr>"

text \<open>The same library with initial parameters \<open>1 + 2\<^sup>-\<^sup>3\<^sup>0\<close>, which double precision
  holds exactly and single precision rounds to \<open>1\<close>.\<close>

definition rounding_library :: "(unit, string) library" where
  "rounding_library =
     toy_library
       \<lparr>sample_init := (\<lambda>p. replicate (dim p) (1 + 1 / 2 ^ 30)),
        float32 := (\<lambda>r. if r = 1 + 1 / 2 ^ 30 then 1 else r)\<rparr>"

text \<open>An \<open>AbsMLP\<close> instance with hidden size 4 and the two samples \<open>x = 1\<close> and \<open>x = -1\<close>
  (targets \<open>|x|\<close>), and a parameter vector of the 33 entries: the first layer computes
  \<open>(x, -x, 0, 0)\<close>, the second layer doubles its input, the third adds the first two
  units.\<close>

definition abs_instance :: mlp_instance where
  "abs_instance = \<lparr>hidden_size = 4, x_data = [[1], [- 1]], y_data = [[1], [1]]\<rparr>"

definition doubling_params :: "real list" where
  "doubling_params =
     [1, - 1, 0, 0] @ [0, 0, 0, 0]
     @ [2, 0, 0, 0,  0, 2, 0, 0,  0, 0, 2, 0,  0, 0, 0, 2] @ [0, 0, 0, 0]
     @ [1, 1, 0, 0] @ [0]"

section \<open>Facts about the catalog\<close>

lemmas block_defs =
  gradient_block_def momentum_block_def scaling_block_def regularization_block_def
  normalization_block_def advanced_scaling_block_def preconditioning_block_def
  adaptive_lr_block_def special_block_def

lemma category_colors:
  "map (\<lambda>k. map_of COLORS k) [''gradient'', ''momentum'', ''scaling'', ''regularization'',
      ''normalization'', ''update'']
   = [Some ''#9c27b0'', Some ''#2196f3'', Some ''#ff5722'', Some ''#009688'',
      Some ''#795548'', Some ''#4caf50'']"
  by (simp add: COLORS_def)

lemma all_component_ids:
  "map comp_id all_components =
    [''gradient_input'', ''heavyball'', ''nesterov'', ''nesterov_ema'', ''basic_ema'',
     ''adam_scale'', ''rmsprop_scale'', ''adagrad_scale'', ''weight_decay'',
     ''weight_decay_init'', ''l1_weight_decay'', ''grad_clip'', ''sign'', ''orthogonalize'',
     ''orthogonalize_update'', ''laprop'', ''adopt'', ''soap'', ''psgd'', ''psgd_lra'',
     ''delayed_psgd'', ''delayed_psgd_lra'', ''d_adapt'', ''lr_adapt'', ''pointwise_lr_adapt'',
     ''schedule_free'', ''msam'', ''mup'', ''palm_beta2'', ''identity'']"
  by (simp add: all_components_def OPTIMIZER_BLOCKS_def block_defs)

lemma distinct_component_ids: "distinct (map comp_id all_components)"
  unfolding all_component_ids by simp

lemma all_components_concat:
  "all_components = concat (map cat_components (map snd OPTIMIZER_BLOCKS))"
  by (simp add: all_components_def)

subsection \<open>The two search loops\<close>

lemma find_component_None:
  "find_component cs cid = None \<longleftrightarrow> cid \<notin> comp_id ` set cs"
  by (induction cs) auto

lemma find_component_SomeD:
  "find_component cs cid = Some c \<Longrightarrow> c \<in> set cs \<and> comp_id c = cid"
  by (induction cs) (auto split: if_splits)

lemma find_component_Some:
  "distinct (map comp_id cs) \<Longrightarrow> c \<in> set cs \<Longrightarrow> find_component cs (comp_id c) = Some c"
  by (induction cs) (auto simp: rev_image_eqI)

lemma find_in_categories_None:
  "find_in_categories cats cid = None
     \<longleftrightarrow> cid \<notin> comp_id ` set (concat (map cat_components cats))"
proof (induction cats)
  case Nil
  show ?case by simp
next
  case (Cons a cats)
  show ?case
  proof (cases "find_component (cat_components a) cid")
    case None
    then have step: "find_in_categories (a # cats) cid = find_in_categories cats cid"
      by simp
    from None have "cid \<notin> comp_id ` set (cat_components a)"
      using find_component_None [of "cat_components a" cid] by simp
    with Cons show ?thesis unfolding step by auto
  next
    case (Some c)
    then have "c \<in> set (cat_components a)" "comp_id c = cid"
      by (simp_all add: find_component_SomeD)
    then have "cid \<in> comp_id ` set (cat_components a)"
      by (auto simp: rev_image_eqI)
    with Some show ?thesis by auto
  qed
qed

lemma find_in_categories_SomeD:
  "find_in_categories cats cid = Some (c, color)
     \<Longrightarrow> comp_id c = cid \<and> (\<exists>cat \<in> set cats. c \<in> set (cat_components cat) \<and> color = cat_color cat)"
proof (induction cats)
  case Nil
  then show ?case by simp
next
  case (Cons a cats)
  show ?case
  proof (cases "find_component (cat_components a) cid")
    case None
    with Cons show ?thesis by auto
  next
    case (Some c')
    with Cons.prems have "c' = c" "color = cat_color a" by simp_all
    with Some find_component_SomeD [of "cat_components a" cid c] show ?thesis by auto
  qed
qed

lemma find_in_categories_Some:
  assumes "distinct (map comp_id (concat (map cat_components cats)))"
    and "cat \<in> set cats" and "c \<in> set (cat_components cat)"
  shows "find_in_categories cats (comp_id c) = Some (c, cat_color cat)"
  using assms
proof (induction cats)
  case Nil
  then show ?case by simp
next
  case (Cons a cats)
  show ?case
  proof (cases "cat = a")
    case True
    with Cons.prems show ?thesis by (simp add: find_component_Some)
  next
    case False
    with Cons.prems have in_rest: "cat \<in> set cats" by simp
    have "comp_id c \<notin> comp_id ` set (cat_components a)"
      using Cons.prems in_rest by (auto simp: rev_image_eqI)
    then have "find_component (cat_components a) (comp_id c) = None"
      by (simp add: find_component_None)
    with Cons in_rest show ?thesis by simp
  qed
qed

lemma get_component_info_found:
  assumes "cat \<in> set (map snd OPTIMIZER_BLOCKS)" and "c \<in> set (cat_components cat)"
  shows "get_component_info (comp_id c) = (Some c, cat_color cat)"
proof -
  have "distinct (map comp_id (concat (map cat_components (map snd OPTIMIZER_BLOCKS))))"
    using distinct_component_ids by (simp only: all_components_concat)
  from find_in_categories_Some [OF this assms] show ?thesis
    by (simp add: get_component_info_def)
qed

lemma get_component_info_missing:
  assumes "cid \<notin> comp_id ` set all_components"
  shows "get_component_info cid = (None, ''#757575'')"
proof -
  from assms have "find_in_categories (map snd OPTIMIZER_BLOCKS) cid = None"
    using find_in_categories_None [of "map snd OPTIMIZER_BLOCKS" cid]
    by (simp add: all_components_concat)
  then show ?thesis by (simp add: get_component_info_def)
qed

lemma get_component_info_SomeD:
  assumes "get_component_info cid = (Some c, color)"
  shows "comp_id c = cid \<and> c \<in> set all_components"
proof -
  from assms have "find_in_categories (map snd OPTIMIZER_BLOCKS) cid = Some (c, color)"
    by (auto simp: get_component_info_def split: option.splits)
  from find_in_categories_SomeD [OF this] show ?thesis
    by (auto simp: all_components_concat)
qed

lemma get_component_info_known:
  "fst (get_component_info cid) \<noteq> None \<longleftrightarrow> cid \<in> set (map comp_id all_components)"
proof
  assume "fst (get_component_info cid) \<noteq> None"
  then obtain c color where "get_component_info cid = (Some c, color)"
    by (cases "get_component_info cid") auto
  from get_component_info_SomeD [OF this] show "cid \<in> set (map comp_id all_components)"
    by auto
next
  assume "cid \<in> set (map comp_id all_components)"
  then obtain c where c: "c \<in> set all_components" "comp_id c = cid" by auto
  then obtain cat where "cat \<in> set (map snd OPTIMIZER_BLOCKS)" "c \<in> set (cat_components cat)"
    by (auto simp: all_components_concat)
  from get_component_info_found [OF this] c show "fst (get_component_info cid) \<noteq> None"
    by simp
qed

section \<open>Catalog lookup\<close>

text \<open>
  Claim C6. Component ids are unique across all categories of the catalog; a component
  is the record of the six metadata fields id, name, icon, description, func and params;
  and for every string \<open>cid\<close>, \<open>get_component_info\<close> returns the one component with
  that id together with the color of its category, or \<open>(None, "#757575")\<close> when no
  component has that id.
\<close>

theorem catalog_lookup:
  "distinct (map comp_id all_components) \<and>
   (\<forall>cat \<in> set (map snd OPTIMIZER_BLOCKS). \<forall>c \<in> set (cat_components cat).
       get_component_info (comp_id c) = (Some c, cat_color cat)) \<and>
   (cid \<notin> comp_id ` set all_components \<longrightarrow> get_component_info cid = (None, ''#757575''))"
  using distinct_component_ids get_component_info_found get_component_info_missing
  by blast

theorem catalog_lookup_witness:
  "get_component_info ''sign'' =
     (Some \<lparr>comp_id = ''sign'', comp_name = utext ''Sign SGD'', comp_icon = [0xB1],
            comp_description = utext ''Use only gradient signs'',
            comp_func = Some (C ''sign''), comp_params = [(''graft'', VBool True)]\<rparr>,
      ''#795548'') \<and>
   get_component_info ''adamw'' = (None, ''#757575'')"
proof -
  let ?c = "\<lparr>comp_id = ''sign'', comp_name = utext ''Sign SGD'', comp_icon = [0xB1],
            comp_description = utext ''Use only gradient signs'',
            comp_func = Some (C ''sign''), comp_params = [(''graft'', VBool True)]\<rparr>"
  have cat: "normalization_block \<in> set (map snd OPTIMIZER_BLOCKS)"
    by (simp add: OPTIMIZER_BLOCKS_def)
  have c: "?c \<in> set (cat_components normalization_block)"
    by (simp add: normalization_block_def)
  have color: "cat_color normalization_block = ''#795548''"
    by (simp add: normalization_block_def COLORS_at_def COLORS_def)
  have missing: "''adamw'' \<notin> comp_id ` set all_components"
    using all_component_ids by (simp flip: set_map)
  from catalog_lookup [of "''adamw''"] cat c missing
  have "get_component_info (comp_id ?c) = (Some ?c, cat_color normalization_block)"
    and "get_component_info ''adamw'' = (None, ''#757575'')"
    by blast+
  with color show ?thesis by simp
qed

section \<open>Recipes\<close>

text \<open>
  Claim C7. Every recipe in \<open>RECIPES\<close> begins with the id \<open>gradient_input\<close>, and every
  id in every recipe resolves to a catalog component; so whatever name is given,
  \<open>load_recipe\<close> yields a pipeline that begins with the input block and whose ids
  all resolve.
\<close>

theorem recipes_valid:
  "(\<forall>(recipe_name, recipe) \<in> set RECIPES.
       recipe \<noteq> [] \<and> hd recipe = ''gradient_input'' \<and>
       (\<forall>cid \<in> set recipe. fst (get_component_info cid) \<noteq> None)) \<and>
   load_recipe recipe_name \<noteq> [] \<and> hd (load_recipe recipe_name) = ''gradient_input'' \<and>
   (\<forall>cid \<in> set (load_recipe recipe_name). fst (get_component_info cid) \<noteq> None)"
proof -
  have recipes: "\<forall>(recipe_name, recipe) \<in> set RECIPES.
       recipe \<noteq> [] \<and> hd recipe = ''gradient_input'' \<and>
       (\<forall>cid \<in> set recipe. fst (get_component_info cid) \<noteq> None)"
    unfolding get_component_info_known all_component_ids
    by (simp add: RECIPES_def)
  have input: "fst (get_component_info ''gradient_input'') \<noteq> None"
    unfolding get_component_info_known all_component_ids by simp
  have "load_recipe recipe_name \<noteq> [] \<and> hd (load_recipe recipe_name) = ''gradient_input'' \<and>
   (\<forall>cid \<in> set (load_recipe recipe_name). fst (get_component_info cid) \<noteq> None)"
  proof (cases "map_of RECIPES recipe_name")
    case None
    with input show ?thesis by (simp add: load_recipe_def)
  next
    case (Some recipe)
    then have "(recipe_name, recipe) \<in> set RECIPES" by (rule map_of_SomeD)
    with recipes have "recipe \<noteq> [] \<and> hd recipe = ''gradient_input'' \<and>
       (\<forall>cid \<in> set recipe. fst (get_component_info cid) \<noteq> None)" by blast
    with Some show ?thesis by (simp add: load_recipe_def)
  qed
  with recipes show ?thesis by blast
qed

theorem recipes_valid_witness:
  "load_recipe (utext ''AdamW'') = [''gradient_input'', ''adam_scale'', ''weight_decay''] \<and>
   fst (get_component_info ''adam_scale'') \<noteq> None \<and>
   fst (get_component_info ''weight_decay'') \<noteq> None"
proof -
  have l: "load_recipe (utext ''AdamW'') = [''gradient_input'', ''adam_scale'', ''weight_decay'']"
    by (simp add: load_recipe_def RECIPES_def utext_def)
  from recipes_valid [of "utext ''AdamW''"]
  have "\<forall>cid \<in> set (load_recipe (utext ''AdamW'')). fst (get_component_info cid) \<noteq> None"
    by blast
  with l show ?thesis by simp
qed

section \<open>Convergence detection\<close>

lemma convergence_loop_upt_None:
  "convergence_loop losses threshold [a..<b] = None
     \<longleftrightarrow> (\<forall>i. a \<le> i \<and> i < b \<longrightarrow> \<not> \<bar>losses ! i - losses ! (i - 5)\<bar> < threshold)"
proof (induction "b - a" arbitrary: a)
  case 0
  then show ?case by auto
next
  case (Suc n)
  then have ab: "a < b" and n: "n = b - Suc a" by simp_all
  have rest: "convergence_loop losses threshold [Suc a..<b] = None
     \<longleftrightarrow> (\<forall>i. Suc a \<le> i \<and> i < b \<longrightarrow> \<not> \<bar>losses ! i - losses ! (i - 5)\<bar> < threshold)"
    using Suc.hyps(1) [OF n] .
  show ?case
  proof (cases "\<bar>losses ! a - losses ! (a - 5)\<bar> < threshold")
    case True
    with ab show ?thesis by (auto simp: upt_conv_Cons)
  next
    case False
    have "(\<forall>i. a \<le> i \<and> i < b \<longrightarrow> \<not> \<bar>losses ! i - losses ! (i - 5)\<bar> < threshold)
       \<longleftrightarrow> (\<forall>i. Suc a \<le> i \<and> i < b \<longrightarrow> \<not> \<bar>losses ! i - losses ! (i - 5)\<bar> < threshold)"
      using False by (metis Suc_leI le_neq_implies_less Suc_leD)
    with False ab rest show ?thesis by (simp add: upt_conv_Cons)
  qed
qed

lemma convergence_loop_upt_Some:
  "convergence_loop losses threshold [a..<b] = Some i
     \<Longrightarrow> a \<le> i \<and> i < b \<and> \<bar>losses ! i - losses ! (i - 5)\<bar> < threshold
         \<and> (\<forall>j. a \<le> j \<and> j < i \<longrightarrow> \<not> \<bar>losses ! j - losses ! (j - 5)\<bar> < threshold)"
proof (induction "b - a" arbitrary: a)
  case 0
  then show ?case by simp
next
  case (Suc n)
  then have ab: "a < b" and n: "n = b - Suc a" by simp_all
  show ?case
  proof (cases "\<bar>losses ! a - losses ! (a - 5)\<bar> < threshold")
    case True
    with ab Suc.prems have "i = a" by (simp add: upt_conv_Cons)
    with True ab show ?thesis by auto
  next
    case False
    with ab Suc.prems have "convergence_loop losses threshold [Suc a..<b] = Some i"
      by (simp add: upt_conv_Cons)
    from Suc.hyps(1) [OF n this]
    have ih: "Suc a \<le> i" "i < b" "\<bar>losses ! i - losses ! (i - 5)\<bar> < threshold"
      "\<forall>j. Suc a \<le> j \<and> j < i \<longrightarrow> \<not> \<bar>losses ! j - losses ! (j - 5)\<bar> < threshold"
      by simp_all
    have "\<not> \<bar>losses ! j - losses ! (j - 5)\<bar> < threshold" if "a \<le> j" "j < i" for j
    proof (cases "j = a")
      case True
      with False show ?thesis by simp
    next
      case False
      with that have "Suc a \<le> j" by simp
      with ih(4) that show ?thesis by simp
    qed
    with ih show ?thesis by simp
  qed
qed

text \<open>
  Claim C8. For every list of losses, \<open>find_convergence\<close> returns the length of the
  list when it has fewer than 10 elements; otherwise it returns the smallest index \<open>i\<close>
  with \<open>10 \<le> i < len(losses)\<close> and \<open>|losses[i] - losses[i-5]| < threshold\<close>, or the
  length when there is no such index; the result is never above the length.
\<close>

theorem find_convergence_spec:
  "(length losses < 10 \<longrightarrow> find_convergence losses threshold = length losses) \<and>
   (10 \<le> length losses \<and> (\<exists>i. converged_at losses threshold i) \<longrightarrow>
      find_convergence losses threshold = (LEAST i. converged_at losses threshold i)) \<and>
   (10 \<le> length losses \<and> (\<forall>i. \<not> converged_at losses threshold i) \<longrightarrow>
      find_convergence losses threshold = length losses) \<and>
   find_convergence losses threshold \<le> length losses"
proof (cases "length losses < 10")
  case True
  then show ?thesis by (simp add: find_convergence_def)
next
  case long: False
  show ?thesis
  proof (cases "convergence_loop losses threshold [10..<length losses]")
    case None
    then have "\<forall>i. \<not> converged_at losses threshold i"
      by (simp add: convergence_loop_upt_None converged_at_def)
    with None long show ?thesis by (simp add: find_convergence_def)
  next
    case (Some i)
    from convergence_loop_upt_Some [OF this]
    have i: "converged_at losses threshold i"
      and least: "\<And>j. converged_at losses threshold j \<Longrightarrow> i \<le> j"
      unfolding converged_at_def by (auto simp: not_less [symmetric])
    then have "(LEAST i. converged_at losses threshold i) = i"
      by (intro Least_equality) auto
    moreover have "find_convergence losses threshold = i"
      using Some long by (simp add: find_convergence_def)
    moreover have "i \<le> length losses"
      using i by (simp add: converged_at_def)
    ultimately show ?thesis using i long by auto
  qed
qed

theorem find_convergence_spec_witness:
  "converged_at [9, 7, 5, 4, 3, 2, 1, 1, 1, 1, 3, 1, 1 :: real] default_threshold 11 \<and>
   find_convergence [9, 7, 5, 4, 3, 2, 1, 1, 1, 1, 3, 1, 1 :: real] default_threshold = 11 \<and>
   (LEAST i. converged_at [9, 7, 5, 4, 3, 2, 1, 1, 1, 1, 3, 1, 1 :: real] default_threshold i) = 11 \<and>
   find_convergence [3, 2, 1 :: real] default_threshold = 3"
proof -
  let ?l = "[9, 7, 5, 4, 3, 2, 1, 1, 1, 1, 3, 1, 1 :: real]"
  have hit: "converged_at ?l default_threshold 11"
    by (simp add: converged_at_def default_threshold_def)
  have run: "find_convergence ?l default_threshold = 11"
    by (simp add: find_convergence_def default_threshold_def upt_conv_Cons)
  have len: "10 \<le> length ?l \<and> (\<exists>i. converged_at ?l default_threshold i)"
    using hit by auto
  have short: "length [3, 2, 1 :: real] < 10" by simp
  from find_convergence_spec [of ?l default_threshold] len
  have "find_convergence ?l default_threshold = (LEAST i. converged_at ?l default_threshold i)"
    by blast
  moreover from find_convergence_spec [of "[3, 2, 1 :: real]" default_threshold] short
  have "find_convergence [3, 2, 1 :: real] default_threshold = 3"
    by simp
  ultimately show ?thesis using hit run by simp
qed

section \<open>Removing a pipeline block\<close>

lemma nth_without:
  assumes "i < length xs" and "j < length xs - 1"
  shows "(take i xs @ drop (Suc i) xs) ! j = xs ! (if j < i then j else Suc j)"
  using assms by (auto simp: nth_append min_def)

lemma filter_without:
  assumes "i < length xs" and "\<not> P (xs ! i)"
  shows "filter P (take i xs @ drop (Suc i) xs) = filter P xs"
proof -
  have "xs = take i xs @ xs ! i # drop (Suc i) xs"
    using assms(1) by (simp add: id_take_nth_drop)
  then have "filter P xs = filter P (take i xs @ xs ! i # drop (Suc i) xs)"
    by simp
  also have "\<dots> = filter P (take i xs @ drop (Suc i) xs)"
    using assms(2) by simp
  finally show ?thesis by simp
qed

text \<open>
  Claim C9. For every pipeline list and integer index, \<open>remove_block\<close> returns the
  pipeline itself, unchanged, when the index is out of range or the element at the index
  is \<open>gradient_input\<close>; otherwise it returns a new list, the input without the element at
  the index and with all other elements in their order. No list that existed before the
  call is changed, and the \<open>gradient_input\<close> entries of the result are those of the input.
\<close>

theorem remove_block_spec:
  assumes "pipeline < length h"
  shows "\<exists>h' r. remove_block h pipeline index = Inr (h', r) \<and>
     (\<forall>q < length h. h' ! q = h ! q) \<and>
     (if 0 \<le> index \<and> index < int (length (h ! pipeline))
          \<and> (h ! pipeline) ! nat index \<noteq> ''gradient_input''
      then r = length h \<and> length h' = Suc (length h) \<and>
           h' ! r = take (nat index) (h ! pipeline) @ drop (Suc (nat index)) (h ! pipeline) \<and>
           length (h' ! r) = length (h ! pipeline) - 1 \<and>
           (\<forall>j < length (h ! pipeline) - 1.
               (h' ! r) ! j = (h ! pipeline) ! (if j < nat index then j else Suc j))
      else r = pipeline \<and> h' = h) \<and>
     filter (\<lambda>cid. cid = ''gradient_input'') (h' ! r)
       = filter (\<lambda>cid. cid = ''gradient_input'') (h ! pipeline)"
proof (cases "0 \<le> index \<and> index < int (length (h ! pipeline))
          \<and> (h ! pipeline) ! nat index \<noteq> ''gradient_input''")
  case False
  then have "remove_block h pipeline index = Inr (h, pipeline)"
    by (auto simp: remove_block_def)
  with False show ?thesis by auto
next
  case True
  define xs where "xs = h ! pipeline"
  define i where "i = nat index"
  define ys where "ys = take i xs @ drop (Suc i) xs"
  from True have i: "i < length xs" and keep: "xs ! i \<noteq> ''gradient_input''"
    by (simp_all add: xs_def i_def nat_less_iff)
  have copy: "(h @ [xs]) ! length h = xs" by simp
  have result: "remove_block h pipeline index = Inr ((h @ [xs])[length h := ys], length h)"
    using True i copy
    by (simp add: remove_block_def list_copy_def list_pop_def xs_def [symmetric]
        i_def [symmetric] ys_def)
  have old: "\<forall>q < length h. ((h @ [xs])[length h := ys]) ! q = h ! q"
    by (simp add: nth_append)
  have new: "((h @ [xs])[length h := ys]) ! length h = ys" by simp
  have len: "length ys = length xs - 1"
    using i by (simp add: ys_def)
  have nth: "\<forall>j < length xs - 1. ys ! j = xs ! (if j < i then j else Suc j)"
    using nth_without [OF i] by (simp add: ys_def)
  have inputs: "filter (\<lambda>cid. cid = ''gradient_input'') ys
       = filter (\<lambda>cid. cid = ''gradient_input'') xs"
    unfolding ys_def using i keep by (rule filter_without)
  from True have cond: "0 \<le> index \<and> index < int (length xs) \<and> xs ! nat index \<noteq> ''gradient_input''"
    by (simp add: xs_def)
  have "\<exists>h' r. remove_block h pipeline index = Inr (h', r) \<and>
     (\<forall>q < length h. h' ! q = h ! q) \<and>
     (if 0 \<le> index \<and> index < int (length xs) \<and> xs ! nat index \<noteq> ''gradient_input''
      then r = length h \<and> length h' = Suc (length h) \<and>
           h' ! r = take i xs @ drop (Suc i) xs \<and>
           length (h' ! r) = length xs - 1 \<and>
           (\<forall>j < length xs - 1. (h' ! r) ! j = xs ! (if j < i then j else Suc j))
      else r = pipeline \<and> h' = h) \<and>
     filter (\<lambda>cid. cid = ''gradient_input'') (h' ! r)
       = filter (\<lambda>cid. cid = ''gradient_input'') xs"
  proof (intro exI conjI)
    show "remove_block h pipeline index = Inr ((h @ [xs])[length h := ys], length h)"
      by (rule result)
    show "\<forall>q < length h. ((h @ [xs])[length h := ys]) ! q = h ! q"
      by (rule old)
    show "if 0 \<le> index \<and> index < int (length xs) \<and> xs ! nat index \<noteq> ''gradient_input''
      then length h = length h \<and> length ((h @ [xs])[length h := ys]) = Suc (length h) \<and>
           ((h @ [xs])[length h := ys]) ! length h = take i xs @ drop (Suc i) xs \<and>
           length (((h @ [xs])[length h := ys]) ! length h) = length xs - 1 \<and>
           (\<forall>j < length xs - 1.
              (((h @ [xs])[length h := ys]) ! length h) ! j = xs ! (if j < i then j else Suc j))
      else length h = pipeline \<and> (h @ [xs])[length h := ys] = h"
      using cond new len nth by (simp add: ys_def)
    show "filter (\<lambda>cid. cid = ''gradient_input'') (((h @ [xs])[length h := ys]) ! length h)
       = filter (\<lambda>cid. cid = ''gradient_input'') xs"
      using new inputs by simp
  qed
  then show ?thesis by (simp only: xs_def i_def)
qed

theorem remove_block_spec_witness:
  "remove_block [[''gradient_input'', ''adam_scale'', ''weight_decay'']] 0 1
     = Inr ([[''gradient_input'', ''adam_scale'', ''weight_decay''],
             [''gradient_input'', ''weight_decay'']], 1) \<and>
   remove_block [[''gradient_input'', ''adam_scale'', ''weight_decay'']] 0 0
     = Inr ([[''gradient_input'', ''adam_scale'', ''weight_decay'']], 0)"
proof -
  let ?h = "[[''gradient_input'', ''adam_scale'', ''weight_decay'']]"
  have valid: "0 < length ?h" by simp
  from remove_block_spec [OF valid, of 1] obtain h' r where
    "remove_block ?h 0 1 = Inr (h', r)" "r = 1" "length h' = 2"
    "h' ! 0 = ?h ! 0" "h' ! r = [''gradient_input'', ''weight_decay'']"
    by auto
  moreover from this have "h' = [h' ! 0, h' ! 1]"
    by (cases h'; cases "tl h'") auto
  moreover from remove_block_spec [OF valid, of 0] have "remove_block ?h 0 0 = Inr (?h, 0)"
    by auto
  ultimately show ?thesis by simp
qed

subsection \<open>The catalog as tables\<close>

lemma find_component_append:
  "find_component (cs @ ds) cid =
     (case find_component cs cid of Some c \<Rightarrow> Some c | None \<Rightarrow> find_component ds cid)"
  by (induction cs) auto

lemma find_in_categories_concat:
  "map_option fst (find_in_categories cats cid)
     = find_component (concat (map cat_components cats)) cid"
  by (induction cats) (auto simp: find_component_append split: option.splits)

lemma fst_get_component_info:
  "fst (get_component_info cid) = find_component all_components cid"
proof -
  have "fst (get_component_info cid)
      = map_option fst (find_in_categories (map snd OPTIMIZER_BLOCKS) cid)"
    by (simp add: get_component_info_def split: option.splits)
  then show ?thesis
    by (simp only: find_in_categories_concat all_components_concat)
qed

lemma find_component_map_of:
  "map_option f (find_component cs cid) = map_of (map (\<lambda>c. (comp_id c, f c)) cs) cid"
  by (induction cs) auto

lemma beta_table:
  "map (\<lambda>c. (comp_id c, comp_func c \<noteq> None \<and> map_of (comp_params c) ''beta'' \<noteq> None
                           \<and> map_of (comp_params c) ''betas'' = None)) all_components =
    [(''gradient_input'', False), (''heavyball'', True), (''nesterov'', True),
     (''nesterov_ema'', True), (''basic_ema'', False), (''adam_scale'', False),
     (''rmsprop_scale'', False), (''adagrad_scale'', False), (''weight_decay'', False),
     (''weight_decay_init'', False), (''l1_weight_decay'', False), (''grad_clip'', False),
     (''sign'', False), (''orthogonalize'', False), (''orthogonalize_update'', False),
     (''laprop'', False), (''adopt'', False), (''soap'', False), (''psgd'', False),
     (''psgd_lra'', False), (''delayed_psgd'', False), (''delayed_psgd_lra'', False),
     (''d_adapt'', False), (''lr_adapt'', False), (''pointwise_lr_adapt'', False),
     (''schedule_free'', False), (''msam'', False), (''mup'', False),
     (''palm_beta2'', False), (''identity'', False)]"
  by (simp add: all_components_def OPTIMIZER_BLOCKS_def block_defs)

lemma has_single_beta_iff:
  "has_single_beta cid \<longleftrightarrow> cid \<in> {''heavyball'', ''nesterov'', ''nesterov_ema''}"
proof -
  let ?f = "\<lambda>c. comp_func c \<noteq> None \<and> map_of (comp_params c) ''beta'' \<noteq> None
                           \<and> map_of (comp_params c) ''betas'' = None"
  have "has_single_beta cid \<longleftrightarrow>
     cid \<noteq> ''gradient_input'' \<and> map_option ?f (find_component all_components cid) = Some True"
    by (auto simp: has_single_beta_def fst_get_component_info split: option.splits)
  also have "\<dots> \<longleftrightarrow> cid \<noteq> ''gradient_input'' \<and>
      map_of (map (\<lambda>c. (comp_id c, ?f c)) all_components) cid = Some True"
    by (simp only: find_component_map_of)
  also have "\<dots> \<longleftrightarrow> cid \<in> {''heavyball'', ''nesterov'', ''nesterov_ema''}"
    unfolding beta_table by (simp split: if_splits)
  finally show ?thesis .
qed

lemma catalog_betas_subscriptable:
  "list_all (\<lambda>c. list_all (\<lambda>(k, v). k = ''betas'' \<longrightarrow> \<not> isl (subscript1 v)) (comp_params c))
     all_components"
  by (simp add: all_components_def OPTIMIZER_BLOCKS_def block_defs)

section \<open>build_optimizer_from_pipeline\<close>

subsection \<open>The functions collected by the loop\<close>

lemma pipeline_step_fns:
  assumes "pipeline_step kwargs (fns, opt_params) cid = Inr (fns', opt_params')"
  shows "fns' = fns @ (case catalog_func cid of None \<Rightarrow> [] | Some f \<Rightarrow> [f])"
proof (cases "cid = ''gradient_input''")
  case True
  with assms show ?thesis by (simp add: pipeline_step_def catalog_func_def)
next
  case False
  obtain info color where info: "get_component_info cid = (info, color)"
    by (cases "get_component_info cid")
  with False assms show ?thesis
    by (auto simp: pipeline_step_def catalog_func_def split: option.splits sum.splits)
qed

lemma pipeline_loop_fns:
  "pipeline_loop kwargs pipeline (fns, opt_params) = Inr (fns', opt_params')
     \<Longrightarrow> fns' = fns @ pipeline_funcs pipeline"
proof (induction pipeline arbitrary: fns opt_params)
  case Nil
  then show ?case by (simp add: pipeline_funcs_def map_filter_simps)
next
  case (Cons cid rest)
  from Cons.prems obtain fns1 opt1 where
    step: "pipeline_step kwargs (fns, opt_params) cid = Inr (fns1, opt1)" and
    loop: "pipeline_loop kwargs rest (fns1, opt1) = Inr (fns', opt_params')"
    by (auto split: sum.splits)
  from pipeline_step_fns [OF step] Cons.IH [OF loop] show ?case
    by (simp add: pipeline_funcs_def map_filter_simps split: option.splits)
qed

subsection \<open>When the loop raises\<close>

lemma pipeline_step_error:
  "pipeline_step kwargs (fns, opt_params) cid = Inl e
     \<longleftrightarrow> has_single_beta cid \<and> (\<exists>b. opt_params ''betas'' = Some b \<and> subscript1 b = Inl e)"
proof (cases "cid = ''gradient_input''")
  case True
  then show ?thesis by (simp add: pipeline_step_def has_single_beta_def)
next
  case False
  obtain info color where info: "get_component_info cid = (info, color)"
    by (cases "get_component_info cid")
  with False show ?thesis
    by (auto simp: pipeline_step_def has_single_beta_def convert_beta_def
        split: option.splits sum.splits)
qed

lemma add_defaults_user_key:
  "kwargs k \<noteq> None \<Longrightarrow> add_defaults kwargs ps opt_params k = opt_params k"
  by (induction kwargs ps opt_params rule: add_defaults.induct) auto

lemma add_defaults_cases:
  "add_defaults kwargs ps opt_params k = opt_params k
     \<or> (\<exists>v. (k, v) \<in> set ps \<and> add_defaults kwargs ps opt_params k = Some v)"
proof (induction kwargs ps opt_params rule: add_defaults.induct)
  case (1 kwargs opt_params)
  show ?case by simp
next
  case (2 kwargs key val rest opt_params)
  then show ?case by (cases "k = key") (auto split: if_splits)
qed

lemma convert_beta_other_key:
  "convert_beta ps opt_params = Inr (ps', opt_params') \<Longrightarrow> k \<noteq> ''betas''
     \<Longrightarrow> opt_params' k = opt_params k"
  by (auto simp: convert_beta_def split: option.splits sum.splits)

lemma convert_beta_params:
  "convert_beta ps opt_params = Inr (ps', opt_params') \<Longrightarrow> set ps' \<subseteq> set ps"
  by (auto simp: convert_beta_def dict_pop_def split: option.splits sum.splits)

lemma convert_beta_betas:
  "convert_beta ps opt_params = Inr (ps', opt_params')
     \<Longrightarrow> opt_params' ''betas'' = opt_params ''betas''
         \<or> (\<exists>x y. opt_params' ''betas'' = Some (VTuple [x, y]))"
  by (auto simp: convert_beta_def split: option.splits sum.splits)

text \<open>A key the user supplied, other than \<open>betas\<close>, keeps the user's value in every step.\<close>

lemma pipeline_step_user_key:
  assumes "pipeline_step kwargs (fns, opt_params) cid = Inr (fns', opt_params')"
    and "kwargs k \<noteq> None" and "k \<noteq> ''betas''"
  shows "opt_params' k = opt_params k"
proof (cases "cid = ''gradient_input''")
  case True
  with assms show ?thesis by (simp add: pipeline_step_def)
next
  case False
  obtain info color where info: "get_component_info cid = (info, color)"
    by (cases "get_component_info cid")
  with False assms show ?thesis
    by (auto simp: pipeline_step_def add_defaults_user_key convert_beta_other_key
        split: option.splits sum.splits)
qed

text \<open>A step of a component without a single \<open>beta\<close> keeps the user's \<open>betas\<close> too.\<close>

lemma pipeline_step_user_betas:
  assumes "pipeline_step kwargs (fns, opt_params) cid = Inr (fns', opt_params')"
    and "kwargs ''betas'' \<noteq> None" and "\<not> has_single_beta cid"
  shows "opt_params' ''betas'' = opt_params ''betas''"
proof (cases "cid = ''gradient_input''")
  case True
  with assms show ?thesis by (simp add: pipeline_step_def)
next
  case False
  obtain info color where info: "get_component_info cid = (info, color)"
    by (cases "get_component_info cid")
  with False assms show ?thesis
    by (auto simp: pipeline_step_def has_single_beta_def add_defaults_user_key convert_beta_def
        split: option.splits sum.splits)
qed

text \<open>After any step, \<open>betas\<close> is what it was, or a value that can be indexed at 1.\<close>

lemma pipeline_step_betas:
  assumes "pipeline_step kwargs (fns, opt_params) cid = Inr (fns', opt_params')"
  shows "opt_params' ''betas'' = opt_params ''betas''
       \<or> (\<exists>b. opt_params' ''betas'' = Some b \<and> \<not> isl (subscript1 b))"
proof (cases "cid = ''gradient_input''")
  case True
  with assms show ?thesis by (simp add: pipeline_step_def)
next
  case False
  obtain info color where info: "get_component_info cid = (info, color)"
    by (cases "get_component_info cid")
  show ?thesis
  proof (cases info)
    case None
    with False info assms show ?thesis by (simp add: pipeline_step_def)
  next
    case (Some c)
    show ?thesis
    proof (cases "comp_func c")
      case None
      with Some False info assms show ?thesis by (simp add: pipeline_step_def)
    next
      case func: (Some f)
      from Some False info func assms obtain ps opt1 where
        conv: "convert_beta (comp_params c) opt_params = Inr (ps, opt1)" and
        res: "opt_params' = add_defaults kwargs ps opt1"
        by (auto simp: pipeline_step_def split: sum.splits)
      from info Some have "c \<in> set all_components"
        using get_component_info_SomeD by blast
      with catalog_betas_subscriptable
      have catalog: "\<And>v. (''betas'', v) \<in> set (comp_params c) \<Longrightarrow> \<not> isl (subscript1 v)"
        by (auto simp: list_all_iff)
      from convert_beta_betas [OF conv]
      have mid: "opt1 ''betas'' = opt_params ''betas''
          \<or> (\<exists>b. opt1 ''betas'' = Some b \<and> \<not> isl (subscript1 b))"
        by auto
      from add_defaults_cases [of kwargs ps opt1 "''betas''"]
      show ?thesis
      proof
        assume "add_defaults kwargs ps opt1 ''betas'' = opt1 ''betas''"
        with mid res show ?thesis by simp
      next
        assume "\<exists>v. (''betas'', v) \<in> set ps \<and> add_defaults kwargs ps opt1 ''betas'' = Some v"
        then obtain v where v: "(''betas'', v) \<in> set ps"
          "add_defaults kwargs ps opt1 ''betas'' = Some v" by blast
        with convert_beta_params [OF conv] have "(''betas'', v) \<in> set (comp_params c)"
          by blast
        from catalog [OF this] v res show ?thesis by simp
      qed
    qed
  qed
qed

lemma pipeline_loop_returns:
  assumes "opt_params ''betas'' = None
         \<or> (\<exists>b. opt_params ''betas'' = Some b \<and> \<not> isl (subscript1 b))"
  shows "\<exists>st. pipeline_loop kwargs pipeline (fns, opt_params) = Inr st"
  using assms
proof (induction pipeline arbitrary: fns opt_params)
  case Nil
  show ?case by simp
next
  case (Cons cid rest)
  have "pipeline_step kwargs (fns, opt_params) cid \<noteq> Inl e" for e
    using Cons.prems by (auto simp: pipeline_step_error)
  then obtain fns1 opt1 where step: "pipeline_step kwargs (fns, opt_params) cid = Inr (fns1, opt1)"
    by (cases "pipeline_step kwargs (fns, opt_params) cid") auto
  from pipeline_step_betas [OF step] Cons.prems
  have "opt1 ''betas'' = None \<or> (\<exists>b. opt1 ''betas'' = Some b \<and> \<not> isl (subscript1 b))"
    by auto
  with Cons.IH [where opt_params = opt1 and fns = fns1] step show ?case by simp
qed

lemma pipeline_loop_raises:
  assumes "kwargs ''betas'' = Some b" and "subscript1 b = Inl e"
    and "opt_params ''betas'' = Some b"
  shows "(if \<exists>cid \<in> set pipeline. has_single_beta cid
          then pipeline_loop kwargs pipeline (fns, opt_params) = Inl e
          else \<exists>st. pipeline_loop kwargs pipeline (fns, opt_params) = Inr st)"
  using assms(3)
proof (induction pipeline arbitrary: fns opt_params)
  case Nil
  show ?case by simp
next
  case (Cons cid rest)
  show ?case
  proof (cases "has_single_beta cid")
    case True
    with Cons.prems assms(2) have "pipeline_step kwargs (fns, opt_params) cid = Inl e"
      by (simp add: pipeline_step_error)
    with True show ?thesis by simp
  next
    case False
    then have "pipeline_step kwargs (fns, opt_params) cid \<noteq> Inl e'" for e'
      by (simp add: pipeline_step_error)
    then obtain fns1 opt1 where
      step: "pipeline_step kwargs (fns, opt_params) cid = Inr (fns1, opt1)"
      by (cases "pipeline_step kwargs (fns, opt_params) cid") auto
    from pipeline_step_user_betas [OF step _ False] assms(1) Cons.prems
    have "opt1 ''betas'' = Some b" by simp
    with Cons.IH [where opt_params = opt1 and fns = fns1] step False show ?thesis
      by (auto split: if_splits)
  qed
qed

lemma pipeline_loop_user_key:
  assumes "pipeline_loop kwargs pipeline (fns, opt_params) = Inr (fns', opt_params')"
    and "kwargs k \<noteq> None"
    and "k \<noteq> ''betas'' \<or> (\<forall>cid \<in> set pipeline. \<not> has_single_beta cid)"
  shows "opt_params' k = opt_params k"
  using assms(1,3)
proof (induction pipeline arbitrary: fns opt_params)
  case Nil
  then show ?case by simp
next
  case (Cons cid rest)
  from Cons.prems(1) obtain fns1 opt1 where
    step: "pipeline_step kwargs (fns, opt_params) cid = Inr (fns1, opt1)" and
    loop: "pipeline_loop kwargs rest (fns1, opt1) = Inr (fns', opt_params')"
    by (auto split: sum.splits)
  have "opt1 k = opt_params k"
  proof (cases "k = ''betas''")
    case True
    with Cons.prems(2) have "\<not> has_single_beta cid" by simp
    from pipeline_step_user_betas [OF step _ this] assms(2) True show ?thesis by simp
  next
    case False
    from pipeline_step_user_key [OF step assms(2) False] show ?thesis .
  qed
  moreover from Cons.prems(2)
  have "k \<noteq> ''betas'' \<or> (\<forall>cid \<in> set rest. \<not> has_single_beta cid)" by auto
  from Cons.IH [OF loop this] have "opt_params' k = opt1 k" .
  ultimately show ?case by simp
qed

lemma base_defaults_betas: "(base_defaults ++ kwargs) ''betas'' = kwargs ''betas''"
  by (simp add: base_defaults_def map_add_def split: option.splits)

lemma build_raises_iff:
  "build_optimizer_from_pipeline pipeline params kwargs = Inl e \<longleftrightarrow>
     (\<exists>cid \<in> set pipeline. has_single_beta cid) \<and>
     (\<exists>b. kwargs ''betas'' = Some b \<and> subscript1 b = Inl e)"
proof -
  let ?loop = "pipeline_loop kwargs pipeline ([], base_defaults ++ kwargs)"
  have build: "build_optimizer_from_pipeline pipeline params kwargs = Inl e \<longleftrightarrow> ?loop = Inl e"
    by (auto simp: build_optimizer_from_pipeline_def split: sum.splits)
  show ?thesis
  proof (cases "kwargs ''betas'' = None \<or> (\<exists>b. kwargs ''betas'' = Some b \<and> \<not> isl (subscript1 b))")
    case True
    then have "\<exists>st. ?loop = Inr st"
      by (intro pipeline_loop_returns) (simp add: base_defaults_betas)
    moreover from True have "\<not> (\<exists>b. kwargs ''betas'' = Some b \<and> subscript1 b = Inl e)"
      by auto
    ultimately show ?thesis unfolding build by auto
  next
    case False
    then obtain b e' where b: "kwargs ''betas'' = Some b" "subscript1 b = Inl e'"
      by (cases "kwargs ''betas''"; cases "subscript1 (the (kwargs ''betas''))") auto
    have "(base_defaults ++ kwargs) ''betas'' = Some b"
      using b by (simp add: base_defaults_betas)
    with b have "if \<exists>cid \<in> set pipeline. has_single_beta cid then ?loop = Inl e'
          else \<exists>st. ?loop = Inr st"
      by (rule pipeline_loop_raises)
    with b show ?thesis unfolding build by (auto split: if_splits)
  qed
qed

lemma build_call:
  assumes "build_optimizer_from_pipeline pipeline params kwargs = Inr call"
  shows "call_params call = params \<and>
     call_fns call = (if pipeline_funcs pipeline = [] then [C ''identity'']
                      else pipeline_funcs pipeline) \<and>
     (\<exists>fns. pipeline_loop kwargs pipeline ([], base_defaults ++ kwargs)
               = Inr (fns, call_defaults call))"
proof -
  from assms obtain fns opt_params where
    loop: "pipeline_loop kwargs pipeline ([], base_defaults ++ kwargs) = Inr (fns, opt_params)"
    by (auto simp: build_optimizer_from_pipeline_def split: sum.splits)
  from pipeline_loop_fns [OF loop] have "fns = pipeline_funcs pipeline" by simp
  with loop assms show ?thesis
    by (auto simp: build_optimizer_from_pipeline_def split: if_splits)
qed

text \<open>What does hold of the merged options: a value the user supplied is passed on,
  except \<open>betas\<close> when the pipeline has a component with a single \<open>beta\<close>.\<close>

lemma build_user_key:
  assumes "build_optimizer_from_pipeline pipeline params kwargs = Inr call"
    and "kwargs k = Some v"
    and "k \<noteq> ''betas'' \<or> (\<forall>cid \<in> set pipeline. \<not> has_single_beta cid)"
  shows "call_defaults call k = Some v"
proof -
  from build_call [OF assms(1)] obtain fns where
    "pipeline_loop kwargs pipeline ([], base_defaults ++ kwargs) = Inr (fns, call_defaults call)"
    by blast
  from pipeline_loop_user_key [OF this _ assms(3)] assms(2)
  show ?thesis by (simp add: map_add_def)
qed

lemma func_table:
  "map (\<lambda>c. (comp_id c, comp_func c)) all_components =
    [(''gradient_input'', None),
     (''heavyball'', Some (C ''heavyball_momentum'')),
     (''nesterov'', Some (C ''nesterov_momentum'')),
     (''nesterov_ema'', Some (C ''nesterov_ema'')),
     (''basic_ema'', Some (C ''exp_avg'')),
     (''adam_scale'', Some (C ''scale_by_adam'')),
     (''rmsprop_scale'', Some (C ''scale_by_exp_avg_sq'')),
     (''adagrad_scale'', Some (C ''scale_by_exp_avg_sq'')),
     (''weight_decay'', Some (C ''weight_decay_to_ema'')),
     (''weight_decay_init'', Some (C ''weight_decay_to_init'')),
     (''l1_weight_decay'', Some (C ''l1_weight_decay_to_ema'')),
     (''grad_clip'',
      Some (Partial (C ''global_clip'') [(''clip_fn'', VRef ''heavyball.utils.l2_clip_'')])),
     (''sign'', Some (C ''sign'')),
     (''orthogonalize'', Some (C ''orthogonalize_grad_to_param'')),
     (''orthogonalize_update'', Some (C ''orthogonalize_update'')),
     (''laprop'', Some (C ''scale_by_laprop'')),
     (''adopt'', Some (C ''scale_by_adopt'')),
     (''soap'', Some (Partial (C ''scale_by_soap'') [(''inner'', VStr ''adam'')])),
     (''psgd'', Some (Partial (C ''scale_by_psgd'') [(''cached'', VBool False)])),
     (''psgd_lra'', Some (C ''scale_by_psgd_lra'')),
     (''delayed_psgd'', Some (Partial (C ''scale_by_delayed_psgd'') [(''cached'', VBool False)])),
     (''delayed_psgd_lra'', Some (C ''scale_by_delayed_psgd_lra'')),
     (''d_adapt'', Some (C ''scale_by_d_adaptation'')),
     (''lr_adapt'', Some (C ''scale_by_lr_adaptation'')),
     (''pointwise_lr_adapt'', Some (C ''scale_by_pointwise_lr_adaptation'')),
     (''schedule_free'', Some (C ''update_by_schedule_free'')),
     (''msam'', Some (C ''update_by_msam'')),
     (''mup'', Some (C ''mup_approx'')),
     (''palm_beta2'', Some (C ''palm_beta2'')),
     (''identity'', Some (C ''identity''))]"
  by (simp add: all_components_def OPTIMIZER_BLOCKS_def block_defs)

lemma catalog_func_table:
  "catalog_func cid =
     (if cid = ''gradient_input'' then None
      else case map_of (map (\<lambda>c. (comp_id c, comp_func c)) all_components) cid of
             None \<Rightarrow> None
           | Some f \<Rightarrow> f)"
proof -
  have "map_of (map (\<lambda>c. (comp_id c, comp_func c)) all_components) cid
      = map_option comp_func (fst (get_component_info cid))"
    by (simp only: fst_get_component_info find_component_map_of)
  then show ?thesis
    by (simp add: catalog_func_def split: option.splits)
qed

text \<open>
  Claim C2. For every pipeline of component ids, \<open>build_optimizer_from_pipeline\<close> passes to
  \<open>C.BaseOpt\<close> as \<open>fns\<close> the catalog functions of the pipeline's ids, in the order of the
  pipeline, without \<open>gradient_input\<close>, ids that have no catalog entry and entries whose
  function is \<open>None\<close>; when no function remains it passes \<open>[C.identity]\<close>. The constructor
  is reached unless the pipeline holds a component with a single \<open>beta\<close> and the user's
  \<open>betas\<close> cannot be indexed at 1, in which case that indexing error is raised.
\<close>

theorem adapter_functions:
  "(build_optimizer_from_pipeline pipeline params kwargs = Inl e \<longleftrightarrow>
      (\<exists>cid \<in> set pipeline. has_single_beta cid) \<and>
      (\<exists>b. kwargs ''betas'' = Some b \<and> subscript1 b = Inl e)) \<and>
   (\<forall>call. build_optimizer_from_pipeline pipeline params kwargs = Inr call \<longrightarrow>
      call_params call = params \<and>
      call_fns call = (if pipeline_funcs pipeline = [] then [C ''identity'']
                       else pipeline_funcs pipeline))"
  using build_raises_iff [of pipeline params kwargs e] build_call [of pipeline params kwargs]
  by blast

theorem adapter_functions_witness:
  "map_sum (\<lambda>e. e) call_fns
     (build_optimizer_from_pipeline
        [''gradient_input'', ''grad_clip'', ''no_such_block'', ''adam_scale'']
        [[- 1, 1 :: real]] Map.empty)
     = Inr [Partial (C ''global_clip'') [(''clip_fn'', VRef ''heavyball.utils.l2_clip_'')],
            C ''scale_by_adam''] \<and>
   map_sum (\<lambda>e. e) call_fns
     (build_optimizer_from_pipeline [''gradient_input''] [[- 1, 1 :: real]] Map.empty)
     = Inr [C ''identity'']"
proof -
  let ?p = "[''gradient_input'', ''grad_clip'', ''no_such_block'', ''adam_scale'']"
  let ?x = "[[- 1, 1 :: real]]"
  have funcs: "pipeline_funcs ?p
      = [Partial (C ''global_clip'') [(''clip_fn'', VRef ''heavyball.utils.l2_clip_'')],
         C ''scale_by_adam'']"
    unfolding pipeline_funcs_def catalog_func_table func_table
    by simp
  have none: "pipeline_funcs [''gradient_input''] = []"
    unfolding pipeline_funcs_def catalog_func_table func_table
    by simp
  have ok: "build_optimizer_from_pipeline ?p ?x Map.empty \<noteq> Inl e" for e
    using adapter_functions [of ?p ?x Map.empty e] by simp
  then obtain call where call: "build_optimizer_from_pipeline ?p ?x Map.empty = Inr call"
    by (cases "build_optimizer_from_pipeline ?p ?x Map.empty") auto
  with adapter_functions [of ?p ?x Map.empty] funcs
  have first: "call_fns call
      = [Partial (C ''global_clip'') [(''clip_fn'', VRef ''heavyball.utils.l2_clip_'')],
         C ''scale_by_adam'']"
    by simp
  have "build_optimizer_from_pipeline [''gradient_input''] ?x Map.empty \<noteq> Inl e" for e
    using adapter_functions [of "[''gradient_input'']" ?x Map.empty e] by simp
  then obtain call' where
    call': "build_optimizer_from_pipeline [''gradient_input''] ?x Map.empty = Inr call'"
    by (cases "build_optimizer_from_pipeline [''gradient_input''] ?x Map.empty") auto
  with adapter_functions [of "[''gradient_input'']" ?x Map.empty] none
  have "call_fns call' = [C ''identity'']"
    by simp
  with first call call' show ?thesis by simp
qed

subsection \<open>The merged options\<close>

lemma heavyball_info:
  "get_component_info ''heavyball'' =
     (Some \<lparr>comp_id = ''heavyball'',
            comp_name = utext ''Heavy Ball'',
            comp_icon = [0x1F3D0],
            comp_description = utext ''Classic momentum: v = '' @ [0x3B2] @ utext ''v - g'',
            comp_func = Some (C ''heavyball_momentum''),
            comp_params = [(''beta'', VFloat 0.9)]\<rparr>,
      ''#2196f3'')"
proof -
  let ?c = "\<lparr>comp_id = ''heavyball'',
            comp_name = utext ''Heavy Ball'',
            comp_icon = [0x1F3D0],
            comp_description = utext ''Classic momentum: v = '' @ [0x3B2] @ utext ''v - g'',
            comp_func = Some (C ''heavyball_momentum''),
            comp_params = [(''beta'', VFloat 0.9)]\<rparr>"
  have cat: "momentum_block \<in> set (map snd OPTIMIZER_BLOCKS)"
    by (simp add: OPTIMIZER_BLOCKS_def)
  have c: "?c \<in> set (cat_components momentum_block)"
    by (simp add: momentum_block_def)
  have color: "cat_color momentum_block = ''#2196f3''"
    by (simp add: momentum_block_def COLORS_at_def COLORS_def)
  from get_component_info_found [OF cat c] color show ?thesis by simp
qed

text \<open>
  Claim C1. The options passed to \<open>C.BaseOpt\<close> should map every key the user supplied to
  the user's value, the catalog defaults filling in only the keys the user did not supply;
  in particular with a momentum component (catalog default \<open>beta\<close>) in the pipeline and
  both \<open>beta\<close> and \<open>betas\<close> supplied, \<open>betas\<close> should reflect the user's values. The code
  does otherwise: for the pipeline \<open>[gradient_input, heavyball]\<close> and the user's
  \<open>beta = 0.5\<close>, \<open>betas = (0.5, 0.99)\<close>, the options hold \<open>betas = (0.9, 0.99)\<close>, whose
  first element is the catalog default.
\<close>

theorem user_betas_overwritten:
  "map_sum (\<lambda>e. e) (\<lambda>call. call_defaults call ''betas'')
     (build_optimizer_from_pipeline [''gradient_input'', ''heavyball''] [[- 1, 1 :: real]]
        [''beta'' \<mapsto> VFloat 0.5, ''betas'' \<mapsto> VTuple [VFloat 0.5, VFloat 0.99]])
   = Inr (Some (VTuple [VFloat 0.9, VFloat 0.99]))"
  by (simp add: build_optimizer_from_pipeline_def pipeline_step_def heavyball_info
      convert_beta_def dict_pop_def base_defaults_def map_add_def)

section \<open>Visualization dispatch\<close>

lemma problem_dims:
  "map (\<lambda>(name, p). (name, dim p)) PROBLEMS =
     [(''Simple Bowl (2D)'', 2), (''Ravine (2D)'', 2), (''Rosenbrock (2D)'', 2),
      (''Himmelblau (2D)'', 2), (''Beale (2D)'', 2),
      (''MLP abs(x) (13D)'', 33), (''MLP sin(x) (13D)'', 33), (''MLP exp(x) (13D)'', 33),
      (''Quadratic Bowl (10D)'', 10), (''Styblinski-Tang (4D)'', 4),
      (''Styblinski-Tang (8D)'', 8)]"
  by (simp add: PROBLEMS_def mlp_shapes_def numel_def)

lemma map_of_dims:
  "map_of (map (\<lambda>(name, p). (name, dim p)) PROBLEMS) name = map_option dim (map_of PROBLEMS name)"
  by (simp add: map_of_map)

text \<open>
  Claim C10. For every problem name in \<open>PROBLEMS\<close>, \<open>create_visualization\<close> returns what
  \<open>create_2d_visualization\<close> produces exactly when the problem's \<open>dim\<close> is 2, and what
  \<open>create_highdim_visualization\<close> produces otherwise, with the same problem name,
  trajectory, losses, gradients and pipeline; the first holds for the five 2D functions,
  the second for the six other problems.
\<close>

theorem visualization_dispatch:
  "(map_of PROBLEMS problem_name = Some problem \<longrightarrow>
      create_visualization lib problem_name trajectory losses gradients pipeline =
        (if dim problem = 2
         then create_2d_visualization lib problem_name trajectory losses gradients pipeline
         else create_highdim_visualization lib problem_name trajectory losses gradients pipeline)) \<and>
   (problem_name \<in> {''Simple Bowl (2D)'', ''Ravine (2D)'', ''Rosenbrock (2D)'',
                      ''Himmelblau (2D)'', ''Beale (2D)''} \<longrightarrow>
      create_visualization lib problem_name trajectory losses gradients pipeline =
        create_2d_visualization lib problem_name trajectory losses gradients pipeline) \<and>
   (problem_name \<in> {''MLP abs(x) (13D)'', ''MLP sin(x) (13D)'', ''MLP exp(x) (13D)'',
                      ''Quadratic Bowl (10D)'', ''Styblinski-Tang (4D)'',
                      ''Styblinski-Tang (8D)''} \<longrightarrow>
      create_visualization lib problem_name trajectory losses gradients pipeline =
        create_highdim_visualization lib problem_name trajectory losses gradients pipeline)"
proof -
  have by_dim: "create_visualization lib problem_name trajectory losses gradients pipeline =
     (case map_option dim (map_of PROBLEMS problem_name) of
        None \<Rightarrow> Inl KeyError
      | Some d \<Rightarrow>
          if d = 2
          then create_2d_visualization lib problem_name trajectory losses gradients pipeline
          else create_highdim_visualization lib problem_name trajectory losses gradients pipeline)"
    by (simp add: create_visualization_def split: option.splits)
  have general: "map_of PROBLEMS problem_name = Some problem \<longrightarrow>
      create_visualization lib problem_name trajectory losses gradients pipeline =
        (if dim problem = 2
         then create_2d_visualization lib problem_name trajectory losses gradients pipeline
         else create_highdim_visualization lib problem_name trajectory losses gradients pipeline)"
    by (simp add: create_visualization_def)
  have two: "problem_name \<in> {''Simple Bowl (2D)'', ''Ravine (2D)'', ''Rosenbrock (2D)'',
                      ''Himmelblau (2D)'', ''Beale (2D)''} \<longrightarrow>
      create_visualization lib problem_name trajectory losses gradients pipeline =
        create_2d_visualization lib problem_name trajectory losses gradients pipeline"
    unfolding by_dim map_of_dims [symmetric] problem_dims by auto
  have high: "problem_name \<in> {''MLP abs(x) (13D)'', ''MLP sin(x) (13D)'', ''MLP exp(x) (13D)'',
                      ''Quadratic Bowl (10D)'', ''Styblinski-Tang (4D)'',
                      ''Styblinski-Tang (8D)''} \<longrightarrow>
      create_visualization lib problem_name trajectory losses gradients pipeline =
        create_highdim_visualization lib problem_name trajectory losses gradients pipeline"
    unfolding by_dim map_of_dims [symmetric] problem_dims by auto
  show ?thesis by (rule conjI [OF general conjI [OF two high]])
qed

theorem visualization_dispatch_witness:
  "create_visualization toy_library ''Rosenbrock (2D)'' [[- 1, 1]] [4] [[- 4, 0]]
       [''gradient_input''] = Inr ''landscape'' \<and>
   create_visualization toy_library ''Quadratic Bowl (10D)'' [] [] [] [''gradient_input'']
     = Inr ''pca''"
proof -
  have found: "map_of PROBLEMS ''Quadratic Bowl (10D)'' = Some (QuadraticBowl 10)"
    by (simp add: PROBLEMS_def)
  from visualization_dispatch [of "''Rosenbrock (2D)''" "QuadraticBowl 10" toy_library
      "[[- 1, 1]]" "[4]" "[[- 4, 0]]" "[''gradient_input'']"]
  have "create_visualization toy_library ''Rosenbrock (2D)'' [[- 1, 1]] [4] [[- 4, 0]]
       [''gradient_input'']
     = create_2d_visualization toy_library ''Rosenbrock (2D)'' [[- 1, 1]] [4] [[- 4, 0]]
       [''gradient_input'']"
    by simp
  moreover
  from found visualization_dispatch [of "''Quadratic Bowl (10D)''" "QuadraticBowl 10"
      toy_library "[]" "[]" "[]" "[''gradient_input'']"]
  have "create_visualization toy_library ''Quadratic Bowl (10D)'' [] [] [] [''gradient_input'']
     = create_highdim_visualization toy_library ''Quadratic Bowl (10D)'' [] [] []
         [''gradient_input'']"
    by simp
  ultimately show ?thesis by (simp add: toy_library_def)
qed

section \<open>The MLP loss\<close>

lemma relu_relu: "relu (relu t) = relu t"
  by (simp add: relu_def)

text \<open>The loss the code computes does not depend on the second layer: its output \<open>pred\<close>
  is overwritten, and the third layer is applied to the first layer's activation.\<close>

lemma MLPProblem_loss_skips_second_layer:
  assumes "split_params (mlp_shapes (hidden_size self)) x = Inr [w1, b1, w2, b2, w3, b3]"
  shows "MLPProblem_loss self x =
     Inr (mse_loss
            (linear (relu (linear (x_data self) (as_matrix (hidden_size self) 1 w1) b1))
               (as_matrix 1 (hidden_size self) w3) b3)
            (y_data self))"
  using assms by (simp add: MLPProblem_loss_def Let_def relu_relu)

lemma declared_model_loss_layers:
  assumes "split_params (mlp_shapes (hidden_size self)) x = Inr [w1, b1, w2, b2, w3, b3]"
  shows "declared_model_loss self x =
     Inr (mse_loss
            (linear
               (relu (linear (relu (linear (x_data self) (as_matrix (hidden_size self) 1 w1) b1))
                        (as_matrix (hidden_size self) (hidden_size self) w2) b2))
               (as_matrix 1 (hidden_size self) w3) b3)
            (y_data self))"
  using assms by (simp add: declared_model_loss_def Let_def)

lemma abs_instance_params:
  "split_params (mlp_shapes (hidden_size abs_instance)) doubling_params =
     Inr [[1, - 1, 0, 0], [0, 0, 0, 0],
          [2, 0, 0, 0,  0, 2, 0, 0,  0, 0, 2, 0,  0, 0, 0, 2], [0, 0, 0, 0],
          [1, 1, 0, 0], [0]]"
  by (simp add: abs_instance_def doubling_params_def mlp_shapes_def numel_def)

text \<open>
  Claim C5. For every \<open>MLPProblem\<close> instance and parameter vector \<open>x\<close> of length \<open>dim\<close>,
  \<open>loss(x)\<close> should be the mean squared error between \<open>y_data\<close> and the forward pass of
  the declared network \<open>Linear \<rightarrow> ReLU \<rightarrow> Linear \<rightarrow> ReLU \<rightarrow> Linear\<close> with the parameters
  unpacked from \<open>x\<close>. On the instance and the 33 parameters above the declared network
  predicts \<open>2|x|\<close> and has loss 1, while the code returns 0.
\<close>

theorem MLPProblem_loss_differs:
  "length doubling_params = dim (MLPProblem AbsMLP 4 2) \<and>
   MLPProblem_loss abs_instance doubling_params = Inr 0 \<and>
   declared_model_loss abs_instance doubling_params = Inr 1"
proof -
  have len: "length doubling_params = dim (MLPProblem AbsMLP 4 2)"
    by (simp add: doubling_params_def mlp_shapes_def numel_def)
  have code: "MLPProblem_loss abs_instance doubling_params = Inr 0"
    unfolding MLPProblem_loss_skips_second_layer [OF abs_instance_params]
    by (simp add: abs_instance_def eval_nat_numeral linear_def relu_def dot_def mse_loss_def)
  have declared: "declared_model_loss abs_instance doubling_params = Inr 1"
    unfolding declared_model_loss_layers [OF abs_instance_params]
    by (simp add: abs_instance_def eval_nat_numeral linear_def relu_def dot_def mse_loss_def)
  show ?thesis by (rule conjI [OF len conjI [OF code declared]])
qed

section \<open>run_optimization\<close>

subsection \<open>The training loop\<close>

lemma training_loop_lists:
  "training_loop lib p n (opt, x) (tr, ls, gs) = Inr (tr', ls', gs')
     \<Longrightarrow> length tr' = length tr + n \<and> length ls' = length ls + n
         \<and> take (length tr) tr' = tr \<and> take (length ls) ls' = ls
         \<and> (0 < n \<longrightarrow> tr' ! length tr = x)"
proof (induction n arbitrary: opt x tr ls gs)
  case 0
  then show ?case by simp
next
  case (Suc n)
  from Suc.prems obtain loss g x' opt' where
    step: "optimizer_step lib p opt x = Inr (loss, g, x', opt')" and
    loop: "training_loop lib p n (opt', x') (tr @ [x], ls @ [loss], gs @ g) = Inr (tr', ls', gs')"
    by (auto split: sum.splits)
  from Suc.IH [OF loop] have
    len: "length tr' = length tr + Suc n" "length ls' = length ls + Suc n" and
    tr: "take (Suc (length tr)) tr' = tr @ [x]" and
    ls: "take (Suc (length ls)) ls' = ls @ [loss]"
    by simp_all
  have "take (length tr) (take (Suc (length tr)) tr') = take (length tr) (tr @ [x])"
    by (simp only: tr)
  then have tr_old: "take (length tr) tr' = tr" by simp
  have "take (length ls) (take (Suc (length ls)) ls') = take (length ls) (ls @ [loss])"
    by (simp only: ls)
  then have ls_old: "take (length ls) ls' = ls" by simp
  have "take (Suc (length tr)) tr' ! length tr = (tr @ [x]) ! length tr"
    by (simp only: tr)
  then have first: "tr' ! length tr = x" by simp
  from len tr_old ls_old first show ?case by simp
qed

text \<open>Entry \<open>i\<close> of the trajectory is \<open>x\<close> at the start of round \<open>i\<close>, entry \<open>i\<close> of the losses is
  the loss that round's step returns.\<close>

lemma training_loop_entries:
  "training_loop lib p n (opt, x) (tr, ls, gs) = Inr (tr', ls', gs')
     \<Longrightarrow> \<forall>i < n. \<exists>opt_i x_i loss g x_next opt_next.
           state_after lib p i (opt, x) = Inr (opt_i, x_i) \<and>
           tr' ! (length tr + i) = x_i \<and>
           optimizer_step lib p opt_i x_i = Inr (loss, g, x_next, opt_next) \<and>
           ls' ! (length ls + i) = loss"
proof (induction n arbitrary: opt x tr ls gs)
  case 0
  then show ?case by simp
next
  case (Suc n)
  from Suc.prems obtain loss g x' opt' where
    step: "optimizer_step lib p opt x = Inr (loss, g, x', opt')" and
    loop: "training_loop lib p n (opt', x') (tr @ [x], ls @ [loss], gs @ g) = Inr (tr', ls', gs')"
    by (auto split: sum.splits)
  from training_loop_lists [OF loop] have
    tr: "take (Suc (length tr)) tr' = tr @ [x]" and
    ls: "take (Suc (length ls)) ls' = ls @ [loss]"
    by simp_all
  have "take (Suc (length tr)) tr' ! length tr = (tr @ [x]) ! length tr"
    by (simp only: tr)
  then have tr0: "tr' ! length tr = x" by simp
  have "take (Suc (length ls)) ls' ! length ls = (ls @ [loss]) ! length ls"
    by (simp only: ls)
  then have ls0: "ls' ! length ls = loss" by simp
  show ?case
  proof (intro allI impI)
    fix i
    assume "i < Suc n"
    show "\<exists>opt_i x_i loss g x_next opt_next.
           state_after lib p i (opt, x) = Inr (opt_i, x_i) \<and>
           tr' ! (length tr + i) = x_i \<and>
           optimizer_step lib p opt_i x_i = Inr (loss, g, x_next, opt_next) \<and>
           ls' ! (length ls + i) = loss"
    proof (cases i)
      case 0
      with step tr0 ls0 show ?thesis by simp
    next
      case (Suc j)
      with \<open>i < Suc n\<close> have "j < n" by simp
      with Suc.IH [OF loop] obtain opt_i x_i loss_i g_i x_next opt_next where
        "state_after lib p j (opt', x') = Inr (opt_i, x_i)"
        "tr' ! (length (tr @ [x]) + j) = x_i"
        "optimizer_step lib p opt_i x_i = Inr (loss_i, g_i, x_next, opt_next)"
        "ls' ! (length (ls @ [loss]) + j) = loss_i"
        by blast
      with Suc step show ?thesis by simp
    qed
  qed
qed

text \<open>The loop returns exactly when each optimizer step of the run returns.\<close>

lemma training_loop_returns_iff:
  "(\<exists>r. training_loop lib p n (opt, x) acc = Inr r) \<longleftrightarrow>
     (\<forall>i < n. \<exists>opt_i x_i r.
         state_after lib p i (opt, x) = Inr (opt_i, x_i) \<and>
         optimizer_step lib p opt_i x_i = Inr r)"
proof (induction n arbitrary: opt x acc)
  case 0
  have "training_loop lib p 0 (opt, x) acc = Inr acc" by simp
  then have "\<exists>r. training_loop lib p 0 (opt, x) acc = Inr r" by (rule exI)
  then show ?case by simp
next
  case (Suc n)
  obtain tr ls gs where acc: "acc = (tr, ls, gs)" using prod_cases3 by blast
  show ?case
  proof (cases "optimizer_step lib p opt x")
    case (Inl e)
    then have "training_loop lib p (Suc n) (opt, x) acc = Inl e"
      by (simp add: acc)
    moreover from Inl have "\<not> (\<exists>opt_i x_i r.
         state_after lib p 0 (opt, x) = Inr (opt_i, x_i) \<and>
         optimizer_step lib p opt_i x_i = Inr r)"
      by simp
    ultimately show ?thesis by auto
  next
    case (Inr r0)
    obtain loss g x' opt' where r0: "r0 = (loss, g, x', opt')" by (cases r0)
    with Inr have step: "optimizer_step lib p opt x = Inr (loss, g, x', opt')" by simp
    then have loop: "training_loop lib p (Suc n) (opt, x) acc
        = training_loop lib p n (opt', x') (tr @ [x], ls @ [loss], gs @ g)"
      by (simp add: acc)
    from step have later: "state_after lib p (Suc i) (opt, x) = state_after lib p i (opt', x')"
      for i by simp
    from step have now: "\<exists>opt_i x_i r.
         state_after lib p 0 (opt, x) = Inr (opt_i, x_i) \<and>
         optimizer_step lib p opt_i x_i = Inr r"
      by simp
    show ?thesis
      unfolding loop All_less_Suc2 later
      using now Suc.IH [of opt' x' "(tr @ [x], ls @ [loss], gs @ g)"] by blast
  qed
qed

subsection \<open>The returned metrics\<close>


lemma run_optimization_build_raises:
  assumes "map_of PROBLEMS problem_name = Some problem"
    and "pow10 lib (case kwargs ''lr'' of None \<Rightarrow> VInt (- 2) | Some v \<Rightarrow> v) = Inr lr"
    and "build_optimizer_from_pipeline pipeline
           [map (float32 lib) (problem_init lib problem)] (kwargs(''lr'' \<mapsto> lr)) = Inl e"
  shows "run_optimization lib problem_name pipeline steps kwargs = Inl e"
  using assms by (simp add: run_optimization_def)

text \<open>
  Claim C3, as stated, makes the first entry of the trajectory equal to the array
  \<open>problem.init()\<close> returned, and lets every run with a known problem and \<open>steps \<ge> 1\<close>
  return metrics. The code stores the parameters in a \<open>float32\<close> tensor first: with
  initial parameters \<open>1 + 2\<^sup>-\<^sup>3\<^sup>0\<close> and a conversion that rounds them to 1, the run on
  \<open>Styblinski-Tang (4D)\<close> returns a trajectory whose first entry is not the initial
  array. And a run in which a call raises returns no metrics: with \<open>heavyball\<close> in the
  pipeline and \<open>betas=0.9\<close> the optimizer is not built, and the run on
  \<open>Simple Bowl (2D)\<close> with \<open>steps = 5\<close> ends in the \<open>TypeError\<close> of \<open>opt_params["betas"][1]\<close>.
\<close>

theorem claimed_metrics_refuted:
  "run_optimization rounding_library ''Styblinski-Tang (4D)'' [''gradient_input''] 1 Map.empty
     = Inr (''pca'',
            \<lparr>m_trajectory = [[1, 1, 1, 1]], m_losses = [4], m_final_loss = 4,
             m_steps_to_converge = 1\<rparr>) \<and>
   map_of PROBLEMS ''Styblinski-Tang (4D)'' = Some (StyblinskiTang 4) \<and>
   problem_init rounding_library (StyblinskiTang 4)
     = [1 + 1 / 2 ^ 30, 1 + 1 / 2 ^ 30, 1 + 1 / 2 ^ 30, 1 + 1 / 2 ^ 30] \<and>
   hd [[1, 1, 1, 1 :: real]]
     \<noteq> [1 + 1 / 2 ^ 30, 1 + 1 / 2 ^ 30, 1 + 1 / 2 ^ 30, 1 + 1 / 2 ^ 30] \<and>
   run_optimization toy_library ''Simple Bowl (2D)'' [''gradient_input'', ''heavyball''] 5
       [''betas'' \<mapsto> VFloat 0.9]
     = Inl TypeError"
proof -
  have problem: "map_of PROBLEMS ''Styblinski-Tang (4D)'' = Some (StyblinskiTang 4)"
    by (simp add: PROBLEMS_def)
  have init: "problem_init rounding_library (StyblinskiTang 4)
     = [1 + 1 / 2 ^ 30, 1 + 1 / 2 ^ 30, 1 + 1 / 2 ^ 30, 1 + 1 / 2 ^ 30]"
    by (simp add: rounding_library_def toy_library_def eval_nat_numeral)
  have four: "replicate 4 v = [v, v, v, v]" for v :: real
    by (simp add: eval_nat_numeral)
  have run: "run_optimization rounding_library ''Styblinski-Tang (4D)'' [''gradient_input''] 1
       Map.empty
     = Inr (''pca'',
            \<lparr>m_trajectory = [[1, 1, 1, 1]], m_losses = [4], m_final_loss = 4,
             m_steps_to_converge = 1\<rparr>)"
    by (simp add: run_optimization_def problem rounding_library_def toy_library_def four
        build_optimizer_from_pipeline_def pipeline_step_def create_visualization_def
        find_convergence_def)
  have differ: "hd [[1, 1, 1, 1 :: real]]
     \<noteq> [1 + 1 / 2 ^ 30, 1 + 1 / 2 ^ 30, 1 + 1 / 2 ^ 30, 1 + 1 / 2 ^ 30]"
    by simp
  let ?bowl = "Function2D (\<lambda>x. (x ! 0 - 1) ^ 2 + (x ! 1 - 2) ^ 2)
          [(-3, 5), (-2, 6)] [-1.0, 0.0] (Some [1.0, 2.0])"
  let ?kwargs = "[''betas'' \<mapsto> VFloat 0.9]"
  have bowl: "map_of PROBLEMS ''Simple Bowl (2D)'' = Some ?bowl"
    by (simp add: PROBLEMS_def)
  have lr: "pow10 toy_library (case ?kwargs ''lr'' of None \<Rightarrow> VInt (- 2) | Some v \<Rightarrow> v)
      = Inr (VFloat (1 / 100))"
    by (simp add: toy_library_def)
  have single: "\<exists>cid \<in> set [''gradient_input'', ''heavyball'']. has_single_beta cid"
    by (simp add: has_single_beta_iff)
  have betas: "\<exists>b. (?kwargs(''lr'' \<mapsto> VFloat (1 / 100))) ''betas'' = Some b
      \<and> subscript1 b = Inl TypeError"
    by simp
  from single betas
  have "build_optimizer_from_pipeline [''gradient_input'', ''heavyball'']
      [map (float32 toy_library) (problem_init toy_library ?bowl)]
      (?kwargs(''lr'' \<mapsto> VFloat (1 / 100))) = Inl TypeError"
    by (simp only: build_raises_iff simp_thms)
  from run_optimization_build_raises [OF bowl lr this]
  have raises: "run_optimization toy_library ''Simple Bowl (2D)''
      [''gradient_input'', ''heavyball''] 5 ?kwargs = Inl TypeError" .
  show ?thesis
    by (rule conjI [OF run conjI [OF problem conjI [OF init conjI [OF differ raises]]]])
qed

text \<open>
  Claim C3, amended. For every problem name in \<open>PROBLEMS\<close> and every \<open>steps \<ge> 1\<close>, when
  no call of the run raises (\<open>10 ** lr\<close>, building the optimizer, \<open>C.BaseOpt\<close>, the
  optimizer steps of the loop, \<open>create_visualization\<close> on the lists of the run),
  \<open>run_optimization\<close> returns metrics whose trajectory has exactly \<open>steps\<close> entries, the
  first being the problem's initial parameters converted to \<open>float32\<close> (the initial
  parameters themselves when the conversion leaves them as they are), whose losses have
  exactly \<open>steps\<close> entries, entry \<open>i\<close> being the loss of optimizer step \<open>i\<close> (taken at
  trajectory entry \<open>i\<close>), whose final loss is the last loss and whose steps to converge
  are \<open>find_convergence\<close> of the losses.
\<close>

theorem training_outputs:
  assumes "map_of PROBLEMS problem_name = Some problem" and "1 \<le> steps"
    and "pow10 lib (case kwargs ''lr'' of None \<Rightarrow> VInt (- 2) | Some v \<Rightarrow> v) = Inr lr"
    and "build_optimizer_from_pipeline pipeline
           [map (float32 lib) (problem_init lib problem)] (kwargs(''lr'' \<mapsto> lr)) = Inr call"
    and "BaseOpt lib call = Inr optimizer"
    and "training_loop lib problem (nat steps)
           (optimizer, map (float32 lib) (problem_init lib problem)) ([], [], [])
           = Inr (trajectory, losses, gradients)"
    and "create_visualization lib problem_name trajectory losses gradients pipeline = Inr fig"
  shows "run_optimization lib problem_name pipeline steps kwargs
       = Inr (fig, \<lparr>m_trajectory = trajectory, m_losses = losses,
                     m_final_loss = last losses,
                     m_steps_to_converge = find_convergence losses default_threshold\<rparr>) \<and>
     length trajectory = nat steps \<and>
     hd trajectory = map (float32 lib) (problem_init lib problem) \<and>
     ((\<forall>r \<in> set (problem_init lib problem). float32 lib r = r) \<longrightarrow>
        hd trajectory = problem_init lib problem) \<and>
     length losses = nat steps \<and>
     (\<forall>i < nat steps. \<exists>opt_i x_i loss g x_next opt_next.
        state_after lib problem i
          (optimizer, map (float32 lib) (problem_init lib problem)) = Inr (opt_i, x_i) \<and>
        trajectory ! i = x_i \<and>
        optimizer_step lib problem opt_i x_i = Inr (loss, g, x_next, opt_next) \<and>
        losses ! i = loss)"
proof -
  define x where "x = map (float32 lib) (problem_init lib problem)"
  from assms(6) have
    loop: "training_loop lib problem (nat steps) (optimizer, x) ([], [], [])
       = Inr (trajectory, losses, gradients)"
    by (simp add: x_def)
  from training_loop_lists [OF loop] have
    len: "length trajectory = nat steps" "length losses = nat steps" and
    first: "0 < nat steps \<longrightarrow> trajectory ! 0 = x"
    by simp_all
  from assms(2) have pos: "0 < nat steps" by simp
  with len have nonempty: "trajectory \<noteq> []" "losses \<noteq> []" by auto
  from nonempty(1) first pos have hd: "hd trajectory = x" by (simp add: hd_conv_nth)
  have run: "run_optimization lib problem_name pipeline steps kwargs
      = Inr (fig, \<lparr>m_trajectory = trajectory, m_losses = losses, m_final_loss = last losses,
                    m_steps_to_converge = find_convergence losses default_threshold\<rparr>)"
    using assms(1,3,4,5,7) loop nonempty(2) by (simp add: run_optimization_def x_def)
  have exact: "x = problem_init lib problem"
    if "\<forall>r \<in> set (problem_init lib problem). float32 lib r = r"
    using that by (simp add: x_def map_idI)
  from training_loop_entries [OF loop]
  have entries: "\<forall>i < nat steps. \<exists>opt_i x_i loss g x_next opt_next.
        state_after lib problem i (optimizer, x) = Inr (opt_i, x_i) \<and>
        trajectory ! i = x_i \<and>
        optimizer_step lib problem opt_i x_i = Inr (loss, g, x_next, opt_next) \<and>
        losses ! i = loss"
    by simp
  from run len hd exact entries show ?thesis
    by (simp add: x_def)
qed

theorem training_outputs_witness:
  "run_optimization toy_library ''Simple Bowl (2D)'' [''gradient_input''] 3 Map.empty
     = Inr (''landscape'',
            \<lparr>m_trajectory = [[- 1, 0], [- 1 / 2, 0], [- 1 / 4, 0]],
             m_losses = [1, 1 / 4, 1 / 16], m_final_loss = 1 / 16,
             m_steps_to_converge = 3\<rparr>) \<and>
   hd [[- 1, 0], [- 1 / 2, 0], [- 1 / 4, 0 :: real]] = [- 1.0, 0.0]"
proof -
  let ?bowl = "Function2D (\<lambda>x. (x ! 0 - 1) ^ 2 + (x ! 1 - 2) ^ 2)
          [(-3, 5), (-2, 6)] [-1.0, 0.0] (Some [1.0, 2.0])"
  let ?call = "\<lparr>call_params = [[- 1, 0 :: real]],
                call_defaults = base_defaults ++ [''lr'' \<mapsto> VFloat (1 / 100)],
                call_fns = [C ''identity'']\<rparr>"
  let ?tr = "[[- 1, 0], [- 1 / 2, 0], [- 1 / 4, 0 :: real]]"
  let ?ls = "[1, 1 / 4, 1 / 16 :: real]"
  let ?gs = "[[- 2, 0], [- 1, 0], [- 1 / 2, 0 :: real]]"
  have problem: "map_of PROBLEMS ''Simple Bowl (2D)'' = Some ?bowl"
    by (simp add: PROBLEMS_def)
  have steps: "(1::int) \<le> 3" by simp
  have lr: "pow10 toy_library (case Map.empty ''lr'' of None \<Rightarrow> VInt (- 2) | Some v \<Rightarrow> v)
      = Inr (VFloat (1 / 100))"
    by (simp add: toy_library_def)
  have build: "build_optimizer_from_pipeline [''gradient_input'']
      [map (float32 toy_library) (problem_init toy_library ?bowl)]
      (Map.empty(''lr'' \<mapsto> VFloat (1 / 100))) = Inr ?call"
    by (simp add: build_optimizer_from_pipeline_def pipeline_step_def toy_library_def)
  have opt: "BaseOpt toy_library ?call = Inr ()"
    by (simp add: toy_library_def)
  have loop: "training_loop toy_library ?bowl (nat 3)
      ((), map (float32 toy_library) (problem_init toy_library ?bowl)) ([], [], [])
      = Inr (?tr, ?ls, ?gs)"
    by (simp add: toy_library_def eval_nat_numeral)
  have viz: "create_visualization toy_library ''Simple Bowl (2D)'' ?tr ?ls ?gs
      [''gradient_input''] = Inr ''landscape''"
    by (simp add: create_visualization_def problem toy_library_def)
  have conv: "find_convergence ?ls default_threshold = 3"
    by (simp add: find_convergence_def)
  from training_outputs [OF problem steps lr build opt loop viz]
  have "run_optimization toy_library ''Simple Bowl (2D)'' [''gradient_input''] 3 Map.empty
     = Inr (''landscape'',
            \<lparr>m_trajectory = ?tr, m_losses = ?ls, m_final_loss = last ?ls,
             m_steps_to_converge = find_convergence ?ls default_threshold\<rparr>)"
    and "hd ?tr = map (float32 toy_library) (problem_init toy_library ?bowl)"
    by blast+
  with conv show ?thesis by (simp add: toy_library_def)
qed

section \<open>Failures are not handled\<close>




end
